theory Spec2Isabelle
  imports
    Main
    "HOL-Library.Char_ord"
    "HOL-Library.List_Lexorder"
    "HOL-Library.Product_Lexorder"
    "HOL-Library.Sublist"
begin

section \<open>Strings\<close>

text \<open>
  A JavaScript string is modelled as a \<^typ>\<open>string\<close>: one \<^typ>\<open>char\<close> per code unit,
  for code units below 256. GraphQL names are ASCII (\<open>[_A-Za-z][_0-9A-Za-z]*\<close>), so every
  name of a schema is covered. The relational operators of JavaScript compare strings
  code unit by code unit, which is the lexicographic order on \<^typ>\<open>char list\<close>.
\<close>

definition startsWith :: "string \<Rightarrow> string \<Rightarrow> bool" where
  "startsWith s p = (take (length p) s = p)"

definition endsWith :: "string \<Rightarrow> string \<Rightarrow> bool" where
  "endsWith s p = (length p \<le> length s \<and> drop (length s - length p) s = p)"

text \<open>\<open>s.substring(0, n)\<close> for \<open>0 \<le> n\<close>.\<close>

definition substring0 :: "string \<Rightarrow> nat \<Rightarrow> string" where
  "substring0 s n = take n s"

text \<open>\<open>xs.join(sep)\<close> on an array of strings.\<close>

fun join :: "string \<Rightarrow> string list \<Rightarrow> string" where
  "join sep [] = []"
| "join sep [x] = x"
| "join sep (x # y # ys) = x @ sep @ join sep (y # ys)"

text \<open>
  \<open>sortBy(xs)\<close> and \<open>sortBy(xs, [f])\<close> of lodash: a stable sort, ascending in the key.
\<close>

definition sortBy :: "('a \<Rightarrow> 'k::linorder) \<Rightarrow> 'a list \<Rightarrow> 'a list" where
  "sortBy f xs = sort_key f xs"

text \<open>
  An object with string keys is an association list in insertion order:
  \<open>Object.keys(obj)\<close>, and \<open>obj[key]\<close> for a key of its own. The keys of an object
  are distinct.
\<close>

definition Object_keys :: "(string \<times> 'a) list \<Rightarrow> string list" where
  "Object_keys obj = map fst obj"

definition getProp :: "(string \<times> 'a) list \<Rightarrow> string \<Rightarrow> 'a" where
  "getProp obj key = the (map_of obj key)"

section \<open>Schema type nodes\<close>

text \<open>
  The type nodes of the schema library, one constructor per class. A named node carries
  its name and what its accessors return: \<open>getInterfaces()\<close>, \<open>getFields()\<close> (an object
  whose keys are the field names, in insertion order), \<open>getTypes()\<close>, \<open>getValues()\<close>.
  A field or argument refers to its type by a node of the same kind; the generator reads
  only the name of such a node.
\<close>

datatype gtype =
    GraphQLScalarType string
  | GraphQLObjectType string "gtype list" "(string \<times> gfield) list"
  | GraphQLInterfaceType string "(string \<times> gfield) list"
  | GraphQLUnionType string "gtype list"
  | GraphQLEnumType string "string list"
  | GraphQLInputObjectType string "(string \<times> gfield) list"
  | GraphQLList (ofType: gtype)
  | GraphQLNonNull (ofType: gtype)
and gfield =
    GraphQLField (field_name: string) (field_type: gtype) (field_args: "(string \<times> gtype) list")

text \<open>\<open>node.name\<close>; a wrapper has none (\<open>undefined\<close>, modelled as the empty string, which
  is falsy as well).\<close>

fun name_of :: "gtype \<Rightarrow> string" where
  "name_of (GraphQLScalarType n) = n"
| "name_of (GraphQLObjectType n _ _) = n"
| "name_of (GraphQLInterfaceType n _) = n"
| "name_of (GraphQLUnionType n _) = n"
| "name_of (GraphQLEnumType n _) = n"
| "name_of (GraphQLInputObjectType n _) = n"
| "name_of (GraphQLList _) = []"
| "name_of (GraphQLNonNull _) = []"

text \<open>\<open>String(node)\<close>: the name, \<open>[T]\<close> for a list, \<open>T!\<close> for a non-null wrapper.\<close>

fun String_of :: "gtype \<Rightarrow> string" where
  "String_of (GraphQLList t) = ''['' @ String_of t @ '']''"
| "String_of (GraphQLNonNull t) = String_of t @ ''!''"
| "String_of t = name_of t"

text \<open>
  A schema: \<open>getTypeMap()\<close> is an object from type names to nodes, \<open>Object.keys\<close> lists
  its keys in insertion order, \<open>getType(name)\<close> looks a name up. The descriptions of
  the types that have one are kept beside the type map, by type name.
\<close>

record schema =
  typeMap :: "(string \<times> gtype) list"
  descriptions :: "(string \<times> string) list"

definition getType :: "schema \<Rightarrow> string \<Rightarrow> gtype option" where
  "getType s n = map_of (typeMap s) n"

definition ROOT_TYPES :: "string set" where
  "ROOT_TYPES = {''Query'', ''Mutation''}"

definition BUILTINS :: "string set" where
  "BUILTINS = {''Boolean'', ''Float'', ''ID'', ''Int'', ''String''}"

section \<open>The canonical type index\<close>

definition namedTypesFromSchema :: "schema \<Rightarrow> string list" where
  "namedTypesFromSchema s =
     (let typeNames = filter (\<lambda>name. name \<notin> BUILTINS)
                        (filter (\<lambda>name. \<not> startsWith name ''__'') (Object_keys (typeMap s)))
      in sortBy (\<lambda>x. x) typeNames)"

section \<open>Errors\<close>

text \<open>
  \<open>throw new Error(message)\<close> is \<open>Error message\<close>. \<open>TypeError\<close> is what the runtime
  raises when a value that is not a function is called. \<open>NotAString\<close> is not an exception:
  it marks a run in which a renderer has produced a value that is not a string (see
  \<open>FLOW_SCALARS_lookup\<close> below); the model follows such a run no further.
\<close>

datatype error =
    Error string
  | TypeError string
  | NotAString string

text \<open>Sequencing of computations that may throw: the first error wins.\<close>

definition bindE :: "error + 'a \<Rightarrow> ('a \<Rightarrow> error + 'b) \<Rightarrow> error + 'b" where
  "bindE m f = (case m of Inl e \<Rightarrow> Inl e | Inr x \<Rightarrow> f x)"

text \<open>\<open>xs.map(f)\<close> where \<open>f\<close> may throw: left to right, stopping at the first error.\<close>

fun mapE :: "('a \<Rightarrow> error + 'b) \<Rightarrow> 'a list \<Rightarrow> error + 'b list" where
  "mapE f [] = Inr []"
| "mapE f (x # xs) = bindE (f x) (\<lambda>y. bindE (mapE f xs) (\<lambda>ys. Inr (y # ys)))"

section \<open>The dispatchers (graphql-dispatch.js)\<close>

text \<open>
  The object of handlers passed to a dispatcher: every key is optional, an absent key
  reads as \<open>undefined\<close> (\<open>None\<close>). The input-position dispatcher never reads
  \<open>onInterface\<close> and \<open>onUnion\<close>. A handler may throw.
\<close>

record ('o, 'c) dispatchers =
  onScalar :: "(gtype \<Rightarrow> 'c \<Rightarrow> error + 'o) option"
  onNonNull :: "(gtype \<Rightarrow> 'c \<Rightarrow> error + 'o) option"
  onObject :: "(gtype \<Rightarrow> 'c \<Rightarrow> error + 'o) option"
  onList :: "(gtype \<Rightarrow> 'c \<Rightarrow> error + 'o) option"
  onEnum :: "(gtype \<Rightarrow> 'c \<Rightarrow> error + 'o) option"
  onInterface :: "(gtype \<Rightarrow> 'c \<Rightarrow> error + 'o) option"
  onUnion :: "(gtype \<Rightarrow> 'c \<Rightarrow> error + 'o) option"
  onDefault :: "(gtype \<Rightarrow> 'c \<Rightarrow> error + 'o) option"

text \<open>The object literal \<open>{}\<close>: no handler at all.\<close>

definition noDispatchers :: "('o, 'c) dispatchers" where
  "noDispatchers = \<lparr>onScalar = None, onNonNull = None, onObject = None, onList = None,
     onEnum = None, onInterface = None, onUnion = None, onDefault = None\<rparr>"

text \<open>\<open>value instanceof C\<close>, for each class.\<close>

fun isScalar :: "gtype \<Rightarrow> bool" where
  "isScalar (GraphQLScalarType _) = True" | "isScalar _ = False"

fun isObject :: "gtype \<Rightarrow> bool" where
  "isObject (GraphQLObjectType _ _ _) = True" | "isObject _ = False"

fun isInterface :: "gtype \<Rightarrow> bool" where
  "isInterface (GraphQLInterfaceType _ _) = True" | "isInterface _ = False"

fun isUnion :: "gtype \<Rightarrow> bool" where
  "isUnion (GraphQLUnionType _ _) = True" | "isUnion _ = False"

fun isEnum :: "gtype \<Rightarrow> bool" where
  "isEnum (GraphQLEnumType _ _) = True" | "isEnum _ = False"

fun isInputObject :: "gtype \<Rightarrow> bool" where
  "isInputObject (GraphQLInputObjectType _ _) = True" | "isInputObject _ = False"

fun isList :: "gtype \<Rightarrow> bool" where
  "isList (GraphQLList _) = True" | "isList _ = False"

fun isNonNull :: "gtype \<Rightarrow> bool" where
  "isNonNull (GraphQLNonNull _) = True" | "isNonNull _ = False"

text \<open>A double quote, and the message of the error \<open>odispatch\<close> throws.\<close>

definition dq :: string where
  "dq = [CHR 0x22]"

definition unhandledMessage :: "gtype \<Rightarrow> string" where
  "unhandledMessage v =
     ''Dispatcher does not handle node of type '' @ dq @ String_of v @ dq @
     '', and also does not define a default handler''"

definition odispatch :: "gtype \<Rightarrow> ('o, 'c) dispatchers \<Rightarrow> 'c \<Rightarrow> error + 'o" where
  "odispatch v d context =
     (if isScalar v \<and> onScalar d \<noteq> None then the (onScalar d) v context
      else if isNonNull v \<and> onNonNull d \<noteq> None then the (onNonNull d) v context
      else if isObject v \<and> onObject d \<noteq> None then the (onObject d) v context
      else if isList v \<and> onList d \<noteq> None then the (onList d) v context
      else if isEnum v \<and> onEnum d \<noteq> None then the (onEnum d) v context
      else if isInterface v \<and> onInterface d \<noteq> None then the (onInterface d) v context
      else if isUnion v \<and> onUnion d \<noteq> None then the (onUnion d) v context
      else (case onDefault d of
              None \<Rightarrow> Inl (Error (unhandledMessage v))
            | Some h \<Rightarrow> h v context))"

text \<open>
  The input-position dispatcher ends in \<open>return dispatchers.default(value, context)\<close>
  with no test of \<open>dispatchers.default\<close>: when it is absent the call of \<open>undefined\<close>
  raises a \<open>TypeError\<close> of the runtime, whose message does not mention the node.
\<close>

definition idispatch :: "gtype \<Rightarrow> ('o, 'c) dispatchers \<Rightarrow> 'c \<Rightarrow> error + 'o" where
  "idispatch v d context =
     (if isScalar v \<and> onScalar d \<noteq> None then the (onScalar d) v context
      else if isEnum v \<and> onEnum d \<noteq> None then the (onEnum d) v context
      else if isInputObject v \<and> onObject d \<noteq> None then the (onObject d) v context
      else if isList v \<and> onList d \<noteq> None then the (onList d) v context
      else if isNonNull v \<and> onNonNull d \<noteq> None then the (onNonNull d) v context
      else (case onDefault d of
              None \<Rightarrow> Inl (TypeError ''dispatchers.default is not a function'')
            | Some h \<Rightarrow> h v context))"

text \<open>
  Whether the variant of a node has a handler in the mapping, for each dispatcher: the
  tests of the \<open>if\<close> chain, in its order.
\<close>

definition ohandled :: "gtype \<Rightarrow> ('o, 'c) dispatchers \<Rightarrow> bool" where
  "ohandled v d =
     (isScalar v \<and> onScalar d \<noteq> None \<or> isNonNull v \<and> onNonNull d \<noteq> None \<or>
      isObject v \<and> onObject d \<noteq> None \<or> isList v \<and> onList d \<noteq> None \<or>
      isEnum v \<and> onEnum d \<noteq> None \<or> isInterface v \<and> onInterface d \<noteq> None \<or>
      isUnion v \<and> onUnion d \<noteq> None)"

definition ihandled :: "gtype \<Rightarrow> ('o, 'c) dispatchers \<Rightarrow> bool" where
  "ihandled v d =
     (isScalar v \<and> onScalar d \<noteq> None \<or> isEnum v \<and> onEnum d \<noteq> None \<or>
      isInputObject v \<and> onObject d \<noteq> None \<or> isList v \<and> onList d \<noteq> None \<or>
      isNonNull v \<and> onNonNull d \<noteq> None)"

section \<open>Rendering type references (the generator)\<close>

definition nl :: string where
  "nl = [CHR 0x0A]"

text \<open>
  \<open>JSON.stringify\<close> of a string: the string in double quotes, with the quote, the
  backslash and the control characters escaped.
\<close>

definition hexDigit :: "nat \<Rightarrow> char" where
  "hexDigit n = ''0123456789abcdef'' ! (n mod 16)"

definition jsonEscape :: "char \<Rightarrow> string" where
  "jsonEscape c =
     (if c = CHR 0x22 then [CHR 0x5C, CHR 0x22]
      else if c = CHR 0x5C then [CHR 0x5C, CHR 0x5C]
      else if c = CHR 0x08 then [CHR 0x5C, CHR ''b'']
      else if c = CHR 0x0C then [CHR 0x5C, CHR ''f'']
      else if c = CHR 0x0A then [CHR 0x5C, CHR ''n'']
      else if c = CHR 0x0D then [CHR 0x5C, CHR ''r'']
      else if c = CHR 0x09 then [CHR 0x5C, CHR ''t'']
      else if (of_char c :: nat) < 32
        then [CHR 0x5C, CHR ''u'', CHR ''0'', CHR ''0'',
              hexDigit (of_char c div 16), hexDigit (of_char c)]
      else [c])"

definition JSON_stringify :: "string \<Rightarrow> string" where
  "JSON_stringify s = dq @ concat (map jsonEscape s) @ dq"

text \<open>
  \<open>nonOptional\<close>: strips the suffix \<open>" | null"\<close> (seven characters), or throws.
\<close>

definition nullSuffix :: string where
  "nullSuffix = '' | null''"

definition malformedMessage :: "string \<Rightarrow> string" where
  "malformedMessage baseTypeExpr =
     ''Expected type to end with '' @ dq @ '' | null'' @ dq @
     '', but got: '' @ dq @ baseTypeExpr @ dq"

definition nonOptional :: "string \<Rightarrow> error + string" where
  "nonOptional baseTypeExpr =
     (if \<not> endsWith baseTypeExpr nullSuffix
      then Inl (Error (malformedMessage baseTypeExpr))
      else Inr (substring0 baseTypeExpr (length baseTypeExpr - 7)))"

definition FLOW_SCALARS :: "(string \<times> string) list" where
  "FLOW_SCALARS =
     [(''ID'', ''string | number | null''),
      (''String'', ''string | null''),
      (''Int'', ''number | null''),
      (''Float'', ''number | null''),
      (''Boolean'', ''boolean | null'')]"

text \<open>
  \<open>FLOW_SCALARS\<close> is an object literal, so \<open>FLOW_SCALARS[name]\<close> finds, besides the
  five entries of its own, the members every object inherits from \<open>Object.prototype\<close>.
  Those values are functions (an object for \<open>__proto__\<close>): truthy, and not strings.
\<close>

definition Object_prototype :: "string list" where
  "Object_prototype =
     [''constructor'', ''__defineGetter__'', ''__defineSetter__'', ''hasOwnProperty'',
      ''__lookupGetter__'', ''__lookupSetter__'', ''isPrototypeOf'',
      ''propertyIsEnumerable'', ''toString'', ''valueOf'', ''__proto__'',
      ''toLocaleString'']"

text \<open>\<open>FLOW_SCALARS[name] || `${name} | null`\<close>, the \<open>onScalar\<close> handler of both renderers.\<close>

definition FLOW_SCALARS_lookup :: "string \<Rightarrow> error + string" where
  "FLOW_SCALARS_lookup name =
     (case map_of FLOW_SCALARS name of
        Some t \<Rightarrow> Inr t
      | None \<Rightarrow>
          if name \<in> set Object_prototype then Inl (NotAString name)
          else Inr (name @ '' | null''))"

text \<open>The \<open>default\<close> handler of both renderers.\<close>

definition namedTypeRef :: "gtype \<Rightarrow> error + string" where
  "namedTypeRef node =
     (let name = name_of node
      in if name = [] then Inl (Error (''Missing type name: '' @ String_of node))
         else Inr (name @ '' | null''))"

text \<open>
  \<open>toFlowOutputTypeRef\<close> calls \<open>odispatch\<close> with the handlers \<open>onScalar\<close>,
  \<open>onNonNull\<close>, \<open>onList\<close> and \<open>default\<close>, two of which call it again on \<open>ofType\<close>.
  The recursion is written out by cases here; \<open>toFlowOutputTypeRef_dispatch\<close> below
  proves it equal to the dispatch with the source's handlers.
\<close>

fun toFlowOutputTypeRef :: "gtype \<Rightarrow> error + string" where
  "toFlowOutputTypeRef (GraphQLScalarType n) = FLOW_SCALARS_lookup n"
| "toFlowOutputTypeRef (GraphQLNonNull t) = bindE (toFlowOutputTypeRef t) nonOptional"
| "toFlowOutputTypeRef (GraphQLList t) =
     bindE (toFlowOutputTypeRef t) (\<lambda>r. Inr (''Array<'' @ r @ ''> | null''))"
| "toFlowOutputTypeRef node = namedTypeRef node"

definition outputRefHandlers :: "(string, unit) dispatchers" where
  "outputRefHandlers =
     \<lparr>onScalar = Some (\<lambda>node _. FLOW_SCALARS_lookup (name_of node)),
      onNonNull = Some (\<lambda>node _. bindE (toFlowOutputTypeRef (ofType node)) nonOptional),
      onObject = None,
      onList = Some (\<lambda>node _. bindE (toFlowOutputTypeRef (ofType node))
                                (\<lambda>r. Inr (''Array<'' @ r @ ''> | null''))),
      onEnum = None, onInterface = None, onUnion = None,
      onDefault = Some (\<lambda>node _. namedTypeRef node)\<rparr>"


fun toFlowInputTypeRef :: "gtype \<Rightarrow> error + string" where
  "toFlowInputTypeRef (GraphQLScalarType n) = FLOW_SCALARS_lookup n"
| "toFlowInputTypeRef (GraphQLList t) =
     bindE (toFlowInputTypeRef t) (\<lambda>r. Inr (''Array<'' @ r @ ''> | null''))"
| "toFlowInputTypeRef (GraphQLNonNull t) = bindE (toFlowInputTypeRef t) nonOptional"
| "toFlowInputTypeRef node = namedTypeRef node"

definition inputRefHandlers :: "(string, unit) dispatchers" where
  "inputRefHandlers =
     \<lparr>onScalar = Some (\<lambda>node _. FLOW_SCALARS_lookup (name_of node)),
      onNonNull = Some (\<lambda>node _. bindE (toFlowInputTypeRef (ofType node)) nonOptional),
      onObject = None,
      onList = Some (\<lambda>node _. bindE (toFlowInputTypeRef (ofType node))
                                (\<lambda>r. Inr (''Array<'' @ r @ ''> | null''))),
      onEnum = None, onInterface = None, onUnion = None,
      onDefault = Some (\<lambda>node _. namedTypeRef node)\<rparr>"

text \<open>
  The accessors of a node. The schema library puts interface nodes in \<open>getInterfaces()\<close>;
  a node of a class without fields has none here.
\<close>

fun getFields :: "gtype \<Rightarrow> (string \<times> gfield) list" where
  "getFields (GraphQLObjectType _ _ fs) = fs"
| "getFields (GraphQLInterfaceType _ fs) = fs"
| "getFields (GraphQLInputObjectType _ fs) = fs"
| "getFields _ = []"

fun getInterfaces :: "gtype \<Rightarrow> gtype list" where
  "getInterfaces (GraphQLObjectType _ is _) = is"
| "getInterfaces _ = []"

fun getTypes :: "gtype \<Rightarrow> gtype list" where
  "getTypes (GraphQLUnionType _ ts) = ts"
| "getTypes _ = []"

fun getValues :: "gtype \<Rightarrow> string list" where
  "getValues (GraphQLEnumType _ vs) = vs"
| "getValues _ = []"

definition toFlowArgType :: "(string \<times> gtype) list \<Rightarrow> error + string" where
  "toFlowArgType args =
     bindE (mapE (\<lambda>arg. bindE (toFlowInputTypeRef (snd arg))
                           (\<lambda>r. Inr (''+'' @ fst arg @ '': '' @ r))) args)
       (\<lambda>fieldExprs. Inr (''{| '' @ join '', '' fieldExprs @ '' |}''))"

text \<open>
  \<open>[parent, output, args].filter(Boolean).join(',')\<close>: \<open>args\<close> is \<open>null\<close> for a field
  without arguments, and an empty string is falsy too.
\<close>

definition toFieldTypeDefinition :: "gtype \<Rightarrow> gfield \<Rightarrow> error + string" where
  "toFieldTypeDefinition parentObj field =
     (let parent = (if name_of parentObj \<in> ROOT_TYPES then ''null'' else name_of parentObj)
      in bindE (toFlowOutputTypeRef (field_type field)) (\<lambda>output.
         bindE (if length (field_args field) = 0 then Inr []
                else bindE (toFlowArgType (field_args field)) (\<lambda>a. Inr [a])) (\<lambda>args.
         Inr (field_name field @ '': Resolver<'' @
              join '','' (filter (\<lambda>x. x \<noteq> []) ([parent, output] @ args)) @ ''>,''))))"

text \<open>
  The \<open>onObject\<close> handler of \<open>toResolverTypeDefinition\<close>. One section per implemented
  interface, in the order of \<open>getInterfaces()\<close>: an empty line, the comment naming the
  interface, one line per key of the interface's fields. \<open>seen\<close> collects those keys;
  the object's own fields follow, without the keys in \<open>seen\<close>.
\<close>

definition interfaceSection :: "gtype \<Rightarrow> gtype \<Rightarrow> error + string" where
  "interfaceSection node iface =
     (let ifields = getFields iface
      in bindE (mapE (\<lambda>ifieldName. toFieldTypeDefinition node (getProp ifields ifieldName))
                  (Object_keys ifields))
           (\<lambda>fieldLines. Inr (join nl ([[], ''// From '' @ name_of iface] @ fieldLines))))"

definition seenFields :: "gtype \<Rightarrow> string set" where
  "seenFields node = (\<Union>iface \<in> set (getInterfaces node). set (Object_keys (getFields iface)))"

definition ownFieldNames :: "gtype \<Rightarrow> string list" where
  "ownFieldNames node =
     filter (\<lambda>name. name \<notin> seenFields node) (Object_keys (getFields node))"

definition resolverOnObject :: "gtype \<Rightarrow> error + string" where
  "resolverOnObject node =
     bindE (mapE (interfaceSection node) (getInterfaces node)) (\<lambda>sections.
     bindE (mapE (\<lambda>name. toFieldTypeDefinition node (getProp (getFields node) name))
              (ownFieldNames node)) (\<lambda>ownLines.
     Inr (join nl ([''export type '' @ name_of node @ ''Resolver = {|''] @ sections @
                   ownLines @ [''|}'']))))"

definition resolverOnEnum :: "gtype \<Rightarrow> error + string" where
  "resolverOnEnum node =
     (let def = join nl (map (\<lambda>v. ''| '' @ JSON_stringify v @ nl) (getValues node))
      in Inr (''export type '' @ name_of node @ '' = '' @ nl @ def))"

definition resolverHandlers :: "(string, unit) dispatchers" where
  "resolverHandlers =
     \<lparr>onScalar = Some (\<lambda>_ _. Inr []),
      onNonNull = None,
      onObject = Some (\<lambda>node _. resolverOnObject node),
      onList = None,
      onEnum = Some (\<lambda>node _. resolverOnEnum node),
      onInterface = Some (\<lambda>_ _. Inr []),
      onUnion = Some (\<lambda>_ _. Inr []),
      onDefault = Some (\<lambda>node _. Inl (Error (''Not implemented: '' @ String_of node)))\<rparr>"

definition toResolverTypeDefinition :: "gtype \<Rightarrow> error + string" where
  "toResolverTypeDefinition v = odispatch v resolverHandlers ()"

section \<open>Concrete subtypes and the alias definitions\<close>

definition isUnionOrInterfaceType :: "string \<Rightarrow> schema \<Rightarrow> bool" where
  "isUnionOrInterfaceType typename s =
     (case getType s typename of
        None \<Rightarrow> False
      | Some t \<Rightarrow> isInterface t \<or> isUnion t)"

definition getConcreteSubtypes :: "schema \<Rightarrow> string \<Rightarrow> string list" where
  "getConcreteSubtypes s name =
     (case getType s name of
        Some (GraphQLUnionType n ts) \<Rightarrow> map name_of ts
      | _ \<Rightarrow>
          filter (\<lambda>typename.
                    case getType s typename of
                      None \<Rightarrow> False
                    | Some t \<Rightarrow> isObject t \<and> (\<exists>iface \<in> set (getInterfaces t). name_of iface = name))
            (namedTypesFromSchema s))"

text \<open>
  One element of \<open>interfaceDefs\<close> in \<open>writeResolverTypes\<close>: the template literal with
  the two aliases, between its line breaks and indentation.
\<close>

definition interfaceDef :: "schema \<Rightarrow> string \<Rightarrow> string" where
  "interfaceDef s name =
     (let concretes = getConcreteSubtypes s name
      in nl @ replicate 16 CHR '' '' @ ''export type '' @ name @ '' = '' @
           join '' | '' concretes @ '';'' @
         nl @ replicate 16 CHR '' '' @ ''export type '' @ name @ ''$typename = '' @
           join '' | '' (map JSON_stringify concretes) @ '';'' @
         nl @ replicate 12 CHR '' '')"

definition interfaceDefs :: "schema \<Rightarrow> string list" where
  "interfaceDefs s =
     map (interfaceDef s)
       (filter (\<lambda>name. isUnionOrInterfaceType name s) (namedTypesFromSchema s))"

section \<open>ModuleBuilder\<close>

text \<open>
  \<open>s.toLowerCase()\<close> on code units below 256: the letters \<open>A\<close> to \<open>Z\<close> and the
  upper-case letters of Latin-1 (192 to 222, without the multiplication sign 215) move
  up by 32.
\<close>

definition lowerChar :: "char \<Rightarrow> char" where
  "lowerChar c =
     (let n = (of_char c :: nat)
      in if (65 \<le> n \<and> n \<le> 90) \<or> (192 \<le> n \<and> n \<le> 222 \<and> n \<noteq> 215)
         then char_of (n + 32) else c)"

definition toLowerCase :: "string \<Rightarrow> string" where
  "toLowerCase s = map lowerChar s"

text \<open>
  A \<open>Map\<close> is an association list in insertion order: \<open>set\<close> on a key that is present
  replaces its value in place, on a new key it appends. A \<open>Set\<close> is a list in
  insertion order: \<open>add\<close> of a member changes nothing.
\<close>

fun Map_set :: "'k \<Rightarrow> 'v \<Rightarrow> ('k \<times> 'v) list \<Rightarrow> ('k \<times> 'v) list" where
  "Map_set k v [] = [(k, v)]"
| "Map_set k v ((k', v') # m) = (if k = k' then (k, v) # m else (k', v') # Map_set k v m)"

definition Map_get :: "('k \<times> 'v) list \<Rightarrow> 'k \<Rightarrow> 'v option" where
  "Map_get m k = map_of m k"

definition Set_add :: "'a \<Rightarrow> 'a list \<Rightarrow> 'a list" where
  "Set_add x xs = (if x \<in> set xs then xs else xs @ [x])"

text \<open>
  The fields of a builder that the generator uses. The registry of keyed definitions
  (\<open>registerDef\<close>, \<open>require\<close> and their type variants) and the export sets are never
  used by the generator and are left out.
\<close>

record ModuleBuilder =
  headerComment :: string
  namespaceImports :: "(string \<times> string) list"
  defaultImports :: "(string \<times> string) list"
  namedImports :: "(string \<times> string list) list"
  typeImports :: "(string \<times> string list) list"
  typeDefCode :: "string list"
  defCode :: "string list"

definition newModuleBuilder :: "string \<Rightarrow> ModuleBuilder" where
  "newModuleBuilder comment =
     \<lparr>headerComment = comment, namespaceImports = [], defaultImports = [],
      namedImports = [], typeImports = [], typeDefCode = [], defCode = []\<rparr>"

text \<open>\<open>emit\<close> with a string, and with a callback that works on the builder.\<close>

definition emit :: "string \<Rightarrow> ModuleBuilder \<Rightarrow> ModuleBuilder" where
  "emit code b = b\<lparr>defCode := defCode b @ [code]\<rparr>"

definition emitCallback ::
  "(ModuleBuilder \<Rightarrow> string \<times> ModuleBuilder) \<Rightarrow> ModuleBuilder \<Rightarrow> ModuleBuilder" where
  "emitCallback callback b =
     (let (code, b') = callback b in b'\<lparr>defCode := defCode b' @ [code]\<rparr>)"

definition addNamespaceImport :: "string \<Rightarrow> string \<Rightarrow> ModuleBuilder \<Rightarrow> ModuleBuilder" where
  "addNamespaceImport identifier from b =
     b\<lparr>namespaceImports := Map_set from identifier (namespaceImports b)\<rparr>"

definition addDefaultImport :: "string \<Rightarrow> string \<Rightarrow> ModuleBuilder \<Rightarrow> ModuleBuilder" where
  "addDefaultImport identifier from b =
     b\<lparr>defaultImports := Map_set from identifier (defaultImports b)\<rparr>"

definition addNamedImport :: "string \<Rightarrow> string \<Rightarrow> ModuleBuilder \<Rightarrow> ModuleBuilder" where
  "addNamedImport identifier from b =
     (let names = (case Map_get (namedImports b) from of None \<Rightarrow> [] | Some ns \<Rightarrow> ns)
      in b\<lparr>namedImports := Map_set from (Set_add identifier names) (namedImports b)\<rparr>)"

definition addTypeImport :: "string \<Rightarrow> string \<Rightarrow> ModuleBuilder \<Rightarrow> ModuleBuilder" where
  "addTypeImport identifier from b =
     (let types = (case Map_get (typeImports b) from of None \<Rightarrow> [] | Some ts \<Rightarrow> ts)
      in b\<lparr>typeImports := Map_set from (Set_add identifier types) (typeImports b)\<rparr>)"

text \<open>
  \<open>iterImports\<close> yields triples of a priority, a name and the import line. For the two
  set-valued kinds the name is \<open>sorted[0]\<close>, which is \<open>undefined\<close> (\<open>None\<close>) for an
  empty set.
\<close>

definition first :: "'a list \<Rightarrow> 'a option" where
  "first xs = (case xs of [] \<Rightarrow> None | x # _ \<Rightarrow> Some x)"

definition namedImportLine :: "string \<Rightarrow> string list \<Rightarrow> nat \<times> string option \<times> string" where
  "namedImportLine module identifiers =
     (let sorted = sortBy toLowerCase identifiers
      in (1, first sorted,
          ''import { '' @ join '', '' sorted @ '' } from '' @ JSON_stringify module))"

definition typeImportLine :: "string \<Rightarrow> string list \<Rightarrow> nat \<times> string option \<times> string" where
  "typeImportLine module identifiers =
     (let sorted = sortBy toLowerCase identifiers
      in (3, first sorted,
          ''import type { '' @ join '', '' sorted @ '' } from '' @ JSON_stringify module))"

definition iterImports :: "ModuleBuilder \<Rightarrow> (nat \<times> string option \<times> string) list" where
  "iterImports b =
     map (\<lambda>(module, identifier).
            (0, Some identifier,
             ''import * as '' @ identifier @ '' from '' @ JSON_stringify module))
       (namespaceImports b) @
     map (\<lambda>(module, identifiers). namedImportLine module identifiers) (namedImports b) @
     map (\<lambda>(module, identifier).
            (2, Some identifier, ''import '' @ identifier @ '' from '' @ JSON_stringify module))
       (defaultImports b) @
     map (\<lambda>(module, identifiers). typeImportLine module identifiers) (typeImports b)"

text \<open>
  \<open>toString\<close> sorts the triples by priority, then by the lower-cased name; computing
  the second key of a triple whose name is \<open>undefined\<close> raises a \<open>TypeError\<close>.
  \<open>sortedImports\<close> is the sorted array of \<open>toString\<close>, each triple with its sort key.
\<close>

definition importKey ::
  "nat \<times> string option \<times> string \<Rightarrow> error + ((nat \<times> string) \<times> string)" where
  "importKey t =
     (case t of (priority, m, line) \<Rightarrow>
        (case m of
           None \<Rightarrow> Inl (TypeError ''Cannot read property toLowerCase of undefined'')
         | Some name \<Rightarrow> Inr ((priority, toLowerCase name), line)))"

definition sortedImports :: "ModuleBuilder \<Rightarrow> error + ((nat \<times> string) \<times> string) list" where
  "sortedImports b = bindE (mapE importKey (iterImports b)) (\<lambda>keyed. Inr (sortBy fst keyed))"

definition toString :: "ModuleBuilder \<Rightarrow> error + string" where
  "toString b =
     bindE (sortedImports b) (\<lambda>sorted.
       let importLines = map snd sorted;
           typeDefLines = map (\<lambda>code. code @ nl) (typeDefCode b);
           defLines = map (\<lambda>code. code @ nl) (defCode b)
       in Inr (join nl ([headerComment b, []] @ importLines @ [[]] @ typeDefLines @ [[]] @
                        defLines)))"


section \<open>Vocabulary of the properties and example schemas\<close>








text \<open>
  A schema with the object types \<open>A\<close> and \<open>B\<close>, both implementing the interface \<open>I\<close>,
  and \<open>union U = B | A\<close>.
\<close>

definition unionSchema :: schema where
  "unionSchema =
     \<lparr>typeMap =
        [(''B'', GraphQLObjectType ''B'' [GraphQLInterfaceType ''I'' []] []),
         (''A'', GraphQLObjectType ''A'' [GraphQLInterfaceType ''I'' []] []),
         (''I'', GraphQLInterfaceType ''I'' []),
         (''U'', GraphQLUnionType ''U''
            [GraphQLObjectType ''B'' [GraphQLInterfaceType ''I'' []] [],
             GraphQLObjectType ''A'' [GraphQLInterfaceType ''I'' []] []])], descriptions = []\<rparr>"

section \<open>The file system and the collaborators\<close>

text \<open>
  The state of a run: the files (path and content), the directories that exist, and the
  lines written by \<open>console.error\<close>. The lines of \<open>console.log\<close> are not kept. File
  system calls fail only for a missing file or directory.
\<close>

record world =
  files :: "(string \<times> string) list"
  dirs :: "string list"
  stderr :: "string list"

text \<open>
  What the generator calls and the repository does not define: the schema builder, the
  code formatter (\<open>prettier\<close>, which throws on text it cannot parse), the parser and
  traversal behind \<open>getExportsFromAST\<close> (from the text of a module to the names it
  exports), the colouring of \<open>chalk.yellow\<close>, \<open>path.relative('.', f)\<close>, and
  \<open>lowerCaseFirst\<close> of \<open>lib/strings\<close>.
\<close>

record env =
  buildSchema :: "string \<Rightarrow> error + schema"
  prettify :: "string \<Rightarrow> error + string"
  scanExports :: "string \<Rightarrow> error + string list"
  yellow :: "string \<Rightarrow> string"
  relative :: "string \<Rightarrow> string"
  lowerCaseFirst :: "string \<Rightarrow> string"

text \<open>
  An asynchronous function is a function of the state that returns a value or throws,
  together with the state it leaves. \<open>Promise_all\<close> runs the tasks of an array one
  after the other in the order of the array and stops at the first that throws; the
  tasks of the generator write different files, so the order of their steps does not
  change what they return.
\<close>

type_synonym 'a io = "world \<Rightarrow> (error + 'a) \<times> world"

definition returnIO :: "'a \<Rightarrow> 'a io" where
  "returnIO x = (\<lambda>w. (Inr x, w))"

definition throwIO :: "error \<Rightarrow> 'a io" where
  "throwIO e = (\<lambda>w. (Inl e, w))"

definition liftE :: "error + 'a \<Rightarrow> 'a io" where
  "liftE r = (\<lambda>w. (r, w))"

definition bindIO :: "'a io \<Rightarrow> ('a \<Rightarrow> 'b io) \<Rightarrow> 'b io" where
  "bindIO m f = (\<lambda>w. case m w of (Inl e, w') \<Rightarrow> (Inl e, w') | (Inr x, w') \<Rightarrow> f x w')"

fun Promise_all :: "'a io list \<Rightarrow> 'a list io" where
  "Promise_all [] = returnIO []"
| "Promise_all (t # ts) =
     bindIO t (\<lambda>x. bindIO (Promise_all ts) (\<lambda>xs. returnIO (x # xs)))"

text \<open>
  Paths are absolute and normalised, with \<open>/\<close> as separator. \<open>path.resolve(dir, f)\<close>
  returns an absolute \<open>f\<close> as it is and puts a relative one under \<open>dir\<close>, without a
  trailing separator; \<open>path.dirname\<close> drops the last segment.
\<close>

definition stripTrailingSlash :: "string \<Rightarrow> string" where
  "stripTrailingSlash p = (if 1 < length p \<and> last p = CHR ''/'' then butlast p else p)"

definition path_resolve :: "string \<Rightarrow> string \<Rightarrow> string" where
  "path_resolve dir f =
     stripTrailingSlash (if startsWith f ''/'' then f else dir @ ''/'' @ f)"

definition path_dirname :: "string \<Rightarrow> string" where
  "path_dirname p = rev (tl (dropWhile (\<lambda>c. c \<noteq> CHR ''/'') (rev p)))"

definition existsSync :: "world \<Rightarrow> string \<Rightarrow> bool" where
  "existsSync w p = (p \<in> set (Object_keys (files w)) \<or> p \<in> set (dirs w))"

definition noEntry :: "string \<Rightarrow> string \<Rightarrow> error" where
  "noEntry call p =
     Error (''ENOENT: no such file or directory, '' @ call @ '' '' @ [CHR 0x27] @ p @ [CHR 0x27])"

definition readFile :: "string \<Rightarrow> string io" where
  "readFile file =
     (\<lambda>w. (case map_of (files w) file of
                None \<Rightarrow> Inl (noEntry ''open'' file)
              | Some contents \<Rightarrow> Inr contents, w))"

definition write_file :: "string \<Rightarrow> string \<Rightarrow> unit io" where
  "write_file filename contents =
     (\<lambda>w. (Inr (),
            w\<lparr>files := Map_set filename contents (files w),
              dirs := Set_add (path_dirname filename) (dirs w)\<rparr>))"

definition writeCode :: "env \<Rightarrow> string \<Rightarrow> string \<Rightarrow> unit io" where
  "writeCode E code outputFileName =
     bindIO (liftE (prettify E code)) (\<lambda>formattedCode. write_file outputFileName formattedCode)"

definition getExportsFromPath :: "env \<Rightarrow> string \<Rightarrow> string list io" where
  "getExportsFromPath E path = bindIO (readFile path) (\<lambda>code. liftE (scanExports E code))"

text \<open>The entries of a directory: the first segment below it of every path.\<close>

definition childOf :: "string \<Rightarrow> string \<Rightarrow> string option" where
  "childOf dir p =
     (if startsWith p (dir @ ''/'') \<and> length dir + 1 < length p
      then Some (takeWhile (\<lambda>c. c \<noteq> CHR ''/'') (drop (length dir + 1) p))
      else None)"

definition listing :: "world \<Rightarrow> string \<Rightarrow> string list" where
  "listing w dir = remdups (List.map_filter (childOf dir) (Object_keys (files w) @ dirs w))"

definition readdir :: "string \<Rightarrow> string list io" where
  "readdir dir =
     (\<lambda>w. (if dir \<in> set (dirs w) then Inr (listing w dir)
             else Inl (noEntry ''scandir'' dir), w))"

definition console_error :: "string list \<Rightarrow> unit io" where
  "console_error ls = (\<lambda>w. (Inr (), w\<lparr>stderr := stderr w @ ls\<rparr>))"

section \<open>The check of an output directory (lib/io)\<close>

text \<open>
  \<open>unexpectedFiles\<close> is the array \<open>unexpected\<close> of \<open>checkOutputDir\<close>, computed from the
  entries of the directory; \<open>pattern\<close> is the test \<open>f.match(pattern)\<close>. \<open>warningLines\<close>
  are the lines that the calls of \<open>console.error\<close> print.
\<close>

definition unexpectedFiles ::
  "string \<Rightarrow> (string \<Rightarrow> bool) \<Rightarrow> string list \<Rightarrow> string list \<Rightarrow> string list" where
  "unexpectedFiles dir pattern expectedFiles entries =
     (let expected = set (map (\<lambda>f. path_resolve dir f) expectedFiles)
      in sortBy (\<lambda>x. x)
           (filter (\<lambda>f. f \<notin> expected)
              (filter pattern (map (\<lambda>f. path_resolve dir f) entries))))"

definition warningLines :: "env \<Rightarrow> string \<Rightarrow> string list \<Rightarrow> string list" where
  "warningLines E dir unexpected =
     [[], yellow E ''Warning:'' @ '' Unexpected files found in output directory.'',
      ''Please rename or delete the following files:''] @
     map (\<lambda>f. ''- '' @ yellow E (relative E (path_resolve dir f))) unexpected @ [[]]"

definition checkOutputDir ::
  "env \<Rightarrow> string \<Rightarrow> (string \<Rightarrow> bool) \<Rightarrow> string list \<Rightarrow> bool io" where
  "checkOutputDir E dir pattern expectedFiles =
     bindIO (readdir dir) (\<lambda>entries.
       let unexpected = unexpectedFiles dir pattern expectedFiles entries
       in if 0 < length unexpected
          then bindIO (console_error (warningLines E dir unexpected)) (\<lambda>_. returnIO False)
          else returnIO True)"

text \<open>The two patterns: \<open>/.*\.js$/\<close> and \<open>/(index|.*resolver)\.js$/i\<close>.\<close>

definition jsPattern :: "string \<Rightarrow> bool" where
  "jsPattern f = endsWith f ''.js''"

definition resolverPattern :: "string \<Rightarrow> bool" where
  "resolverPattern f =
     (endsWith (toLowerCase f) ''index.js'' \<or> endsWith (toLowerCase f) ''resolver.js'')"

section \<open>The generation tasks\<close>

text \<open>\<open>schema.getType(name) instanceof C\<close>: false for a name the schema does not have.\<close>

definition typeIs :: "(gtype \<Rightarrow> bool) \<Rightarrow> schema \<Rightarrow> string \<Rightarrow> bool" where
  "typeIs isC s name = (case getType s name of None \<Rightarrow> False | Some t \<Rightarrow> isC t)"

definition HEADER_COMMENT :: string where
  "HEADER_COMMENT =
     nl @ ''    // @flow'' @ nl @ nl @ ''    /**'' @ nl
       @ ''      * ----------------------- IMPORTANT -------------------------------'' @ nl
       @ ''      *'' @ nl
       @ ''      * The contents of this file are AUTOMATICALLY GENERATED.  Please do'' @ nl
       @ ''      * not edit this file directly.  To modify its contents, make'' @ nl
       @ ''      * changes to your GraphQL schema definition, and re-run:'' @ nl
       @ ''      *'' @ nl @ ''      *     $ generate-resolvers.js <schema>'' @ nl
       @ ''      *'' @ nl
       @ ''      * -----------------------------------------------------------------'' @ nl
       @ ''      */'' @ nl"

text \<open>\<open>xs.filter(Boolean)\<close> on an array of strings and \<open>null\<close>s.\<close>

definition filterBoolean :: "string option list \<Rightarrow> string list" where
  "filterBoolean xs = filter (\<lambda>x. x \<noteq> []) (List.map_filter (\<lambda>x. x) xs)"

subsection \<open>Scalars\<close>

definition customScalarIndexNames :: "schema \<Rightarrow> string list" where
  "customScalarIndexNames s =
     filter (\<lambda>name. name \<notin> BUILTINS)
       (filter (\<lambda>name. typeIs isScalar s name) (namedTypesFromSchema s))"

definition writeScalarsIndex :: "env \<Rightarrow> schema \<Rightarrow> string \<Rightarrow> string io" where
  "writeScalarsIndex E s outputFile =
     (let modelNames = customScalarIndexNames s
      in bindIO
           (if 0 < length modelNames
            then (let builder = emit (join nl (map (\<lambda>name. ''export type { '' @ name @
                                      '' } from '' @ [CHR 0x27] @ ''./'' @ name @ [CHR 0x27] @
                                      '';'') modelNames))
                              (newModuleBuilder HEADER_COMMENT)
                  in bindIO (liftE (toString builder)) (\<lambda>code. writeCode E code outputFile))
            else returnIO ())
           (\<lambda>_. returnIO outputFile))"

definition missingExport :: "string \<Rightarrow> string \<Rightarrow> error" where
  "missingExport outputFile what = Error (''Error in '' @ outputFile @ '': module must '' @ what)"

definition scalarImplCode :: "string \<Rightarrow> error + string" where
  "scalarImplCode name =
     toString
       (emit
          (nl
           @ ''        // TODO: Replace this type alias by the type you want to use internally''
           @ nl @ ''        export type '' @ name @ '' = string;'' @ nl @ nl
           @ ''        // Defines how '' @ name
           @ '' values are serialized back in responses'' @ nl
           @ ''        export const serialize: ('' @ name @ '') => mixed = String;'' @ nl
           @ nl @ ''        // TODO: Replace with existing decoder or define your own''
           @ nl @ ''        export const decoder: Decoder<'' @ name @ ''> = string;'' @ nl
           @ ''    '')
          (addTypeImport ''Decoder'' ''decoders''
             (addNamedImport ''string'' ''decoders'' (newModuleBuilder ''// @flow''))))"

definition writeScalarImpl :: "env \<Rightarrow> schema \<Rightarrow> string \<Rightarrow> string \<Rightarrow> unit io" where
  "writeScalarImpl E s name outputFile =
     (\<lambda>w. if existsSync w outputFile
          then bindIO (getExportsFromPath E outputFile) (\<lambda>exports.
                 if name \<notin> set exports
                 then throwIO (missingExport outputFile
                        (''export a type named '' @ dq @ name @ dq))
                 else if ''serialize'' \<notin> set exports
                 then throwIO (missingExport outputFile
                        (''export a '' @ dq @ ''serialize'' @ dq @ '' function''))
                 else if ''decoder'' \<notin> set exports
                 then throwIO (missingExport outputFile
                        (''export a '' @ dq @ ''decoder'' @ dq @ '' of type '' @ dq @
                         ''Decoder<'' @ name @ ''>'' @ dq))
                 else returnIO ()) w
          else bindIO (liftE (scalarImplCode name))
                 (\<lambda>code. writeCode E code outputFile) w)"

definition scalarNames :: "schema \<Rightarrow> string list" where
  "scalarNames s = filter (\<lambda>model. typeIs isScalar s model) (namedTypesFromSchema s)"

text \<open>
  \<open>writeScalarImpls\<close> awaits \<open>checkOutputDir\<close> and drops what it returns: the function
  has no \<open>return\<close>, its result is \<open>undefined\<close>.
\<close>

definition scalarTasks :: "env \<Rightarrow> schema \<Rightarrow> string \<Rightarrow> string io list" where
  "scalarTasks E s outputDir =
     writeScalarsIndex E s (path_resolve outputDir ''index.js'') #
     map (\<lambda>name.
            let basename = name @ ''.js'';
                filename = path_resolve outputDir basename
            in bindIO (writeScalarImpl E s name filename) (\<lambda>_. returnIO filename))
       (scalarNames s)"

definition writeScalarImpls :: "env \<Rightarrow> schema \<Rightarrow> string \<Rightarrow> unit io" where
  "writeScalarImpls E s outputDir =
     bindIO (Promise_all (scalarTasks E s outputDir))
       (\<lambda>files. bindIO (checkOutputDir E outputDir jsPattern files) (\<lambda>_. returnIO ()))"

subsection \<open>Interfaces and unions\<close>

definition interfaceImplCode :: "schema \<Rightarrow> string \<Rightarrow> error + string" where
  "interfaceImplCode s name =
     (let concretes = getConcreteSubtypes s name
      in toString
           (emit
              (nl @ ''        export function dispatch(value: '' @ name @ ''): '' @ name
               @ ''$typename {'' @ nl
               @ ''            // TODO: Implement how to distinguish which concrete type ''
               @ [CHR 0x22] @ ''value'' @ [CHR 0x22] @ '' is'' @ nl @ ''            ''
               @ join (nl @ '' else '' @ nl) (map (\<lambda>c. ''if (TODO) { return '' @ JSON_stringify c @ ''; }'') concretes)
               @ nl @ ''            throw new Error('' @ [CHR 0x27]
               @ ''Unknown concrete type for ''
               @ (if typeIs isUnion s name then ''union'' else ''abstract interface'')
               @ '' type '' @ name @ ''.'' @ [CHR 0x27] @ '');'' @ nl @ ''        }'' @ nl
               @ ''  '')
              (addTypeImport (name @ ''$typename'') ''../types''
                 (addTypeImport name ''../types'' (newModuleBuilder ''// @flow'')))))"

definition writeInterfaceImpl :: "env \<Rightarrow> schema \<Rightarrow> string \<Rightarrow> string \<Rightarrow> unit io" where
  "writeInterfaceImpl E s name outputFile =
     (\<lambda>w. if existsSync w outputFile
          then bindIO (getExportsFromPath E outputFile) (\<lambda>exports.
                 if ''dispatch'' \<notin> set exports
                 then throwIO (missingExport outputFile
                        (''implement a '' @ dq @ ''dispatch'' @ dq @ '' function''))
                 else returnIO ()) w
          else bindIO (liftE (interfaceImplCode s name))
                 (\<lambda>code. writeCode E code outputFile) w)"

definition interfaceNames :: "schema \<Rightarrow> string list" where
  "interfaceNames s =
     filter (\<lambda>name. isUnionOrInterfaceType name s) (namedTypesFromSchema s)"

definition interfaceTasks :: "env \<Rightarrow> schema \<Rightarrow> string \<Rightarrow> string io list" where
  "interfaceTasks E s outputDir =
     map (\<lambda>name.
            let basename = name @ ''.js'';
                filename = path_resolve outputDir basename
            in bindIO (writeInterfaceImpl E s name filename) (\<lambda>_. returnIO basename))
       (interfaceNames s)"

definition writeInterfaceImpls :: "env \<Rightarrow> schema \<Rightarrow> string \<Rightarrow> bool io" where
  "writeInterfaceImpls E s outputDir =
     bindIO (Promise_all (interfaceTasks E s outputDir))
       (\<lambda>files. checkOutputDir E outputDir jsPattern files)"

subsection \<open>Resolver implementations\<close>

definition invariant :: "bool \<Rightarrow> string \<Rightarrow> unit io" where
  "invariant condition message = (if condition then returnIO () else throwIO (Error message))"

definition resolverImplCode :: "env \<Rightarrow> schema \<Rightarrow> string \<Rightarrow> gtype \<Rightarrow> error + string" where
  "resolverImplCode E s modelName objType =
     (let instName = lowerCaseFirst E modelName;
          resolverTypeName = modelName @ ''Resolver'';
          resolverInstanceName = lowerCaseFirst E resolverTypeName;
          sections =
            map (\<lambda>iface.
                   [[], ''// From '' @ name_of iface] @
                   map (\<lambda>ifieldName.
                          ifieldName @ '': '' @ instName @ '' => '' @ instName @ ''.''
                          @ ifieldName @ '','')
                     (Object_keys (getFields iface)))
              (getInterfaces objType);
          impl =
            join nl
              ([''{''] @ map (\<lambda>section. join nl section) sections @ [[]] @
               map (\<lambda>fieldName.
                      if modelName \<in> ROOT_TYPES
                      then fieldName @ '': (_, args, context) => {'' @ nl
                           @ ''                          // TODO: Replace this with your desired implementation''
                           @ nl @ ''                      },''
                      else fieldName @ '': '' @ instName @ '' => '' @ instName @ ''.''
                           @ fieldName @ '','')
                 (ownFieldNames objType) @
               [''}''])
      in toString
           (emit (''export default '' @ resolverInstanceName @ '';'')
              (emit (''const '' @ resolverInstanceName @ '': '' @ resolverTypeName
                     @ '' = '' @ impl @ '';'')
                 (addTypeImport resolverTypeName ''../types'' (newModuleBuilder ''// @flow'')))))"

definition writeResolverImpl :: "env \<Rightarrow> schema \<Rightarrow> string \<Rightarrow> string \<Rightarrow> unit io" where
  "writeResolverImpl E s modelName outputFile =
     (\<lambda>w. if existsSync w outputFile
          then returnIO () w
          else bindIO (invariant (getType s modelName \<noteq> None)
                         (''Type '' @ modelName @ '' not found in schema'')) (\<lambda>_.
               bindIO (invariant (typeIs isObject s modelName)
                         (''Type '' @ modelName @ '' expected to be of GraphQLObjectType'')) (\<lambda>_.
               bindIO (liftE (resolverImplCode E s modelName (the (getType s modelName))))
                 (\<lambda>code. writeCode E code outputFile))) w)"

text \<open>
  The description of a type, read by \<open>writeRootResolverImpl\<close> for the scalars:
  \<open>type ? type.description || '' : ''\<close>.
\<close>

definition descriptionOf :: "schema \<Rightarrow> string \<Rightarrow> string" where
  "descriptionOf s name =
     (case getType s name of
        None \<Rightarrow> []
      | Some t \<Rightarrow> (case map_of (descriptions s) name of None \<Rightarrow> [] | Some d \<Rightarrow> d))"

definition objectNames :: "schema \<Rightarrow> string list" where
  "objectNames s = filter (\<lambda>model. typeIs isObject s model) (namedTypesFromSchema s)"

definition rootResolverModule :: "schema \<Rightarrow> ModuleBuilder" where
  "rootResolverModule s =
     emitCallback
       (\<lambda>b0.
          let resolverNames = objectNames s;
              scalarNames = scalarNames s;
              interfaceNames = interfaceNames s;
              b1 = foldl (\<lambda>b name.
                            addNamespaceImport name (''../scalars/'' @ name)
                              (addNamedImport ''makeScalar'' ''lib/graphql-tools'' b))
                     b0 scalarNames;
              scalarDecls =
                join nl
                  (map (\<lambda>name.
                          name @ '': makeScalar('' @ [CHR 0x27] @ name @ [CHR 0x27]
                          @ '', '' @ JSON_stringify (descriptionOf s name) @ '', '' @ name
                          @ ''.decoder, '' @ name @ ''.serialize),'')
                     scalarNames);
              b2 = foldl (\<lambda>b name. addNamespaceImport name (''../interfaces/'' @ name) b)
                     b1 interfaceNames;
              interfaceDecls =
                join nl
                  (map (\<lambda>name.
                          name @ '': { __resolveType: '' @ name @ ''.dispatch },'')
                     interfaceNames);
              resolverDecls = join nl (map (\<lambda>name. name @ '','') resolverNames);
              b3 = foldl (\<lambda>b name. addDefaultImport name (''./'' @ name @ ''Resolver'') b)
                     b2 resolverNames
          in (nl @ ''            const resolverMap = {'' @ nl @ ''                ''
              @ (if resolverDecls \<noteq> [] then ''// Resolvers'' else []) @ nl
              @ ''                '' @ resolverDecls @ nl @ nl @ ''                ''
              @ (if interfaceDecls \<noteq> [] then ''// Interfaces'' else []) @ nl
              @ ''                '' @ interfaceDecls @ nl @ nl @ ''                ''
              @ (if scalarDecls \<noteq> [] then ''// Scalars'' else []) @ nl
              @ ''                '' @ scalarDecls @ nl @ ''            };'' @ nl @ nl
              @ ''            export default resolverMap;'' @ nl @ ''        '',
              b3))
       (newModuleBuilder HEADER_COMMENT)"

definition writeRootResolverImpl :: "env \<Rightarrow> schema \<Rightarrow> string \<Rightarrow> string io" where
  "writeRootResolverImpl E s outputFile =
     bindIO (liftE (toString (rootResolverModule s))) (\<lambda>code.
     bindIO (writeCode E code outputFile) (\<lambda>_. returnIO outputFile))"

definition resolverTasks :: "env \<Rightarrow> schema \<Rightarrow> string \<Rightarrow> string io list" where
  "resolverTasks E s outputDir =
     writeRootResolverImpl E s (path_resolve outputDir ''index.js'') #
     map (\<lambda>name.
            let basename = name @ ''Resolver.js'';
                outputPath = path_resolve outputDir basename
            in bindIO (writeResolverImpl E s name outputPath) (\<lambda>_. returnIO basename))
       (objectNames s)"

definition writeResolverImpls :: "env \<Rightarrow> schema \<Rightarrow> string \<Rightarrow> bool io" where
  "writeResolverImpls E s outputDir =
     bindIO (Promise_all (resolverTasks E s outputDir))
       (\<lambda>files. checkOutputDir E outputDir resolverPattern files)"

subsection \<open>Resolver types\<close>

definition inputDefinitionHandlers :: "(string, unit) dispatchers" where
  "inputDefinitionHandlers =
     \<lparr>onScalar = None, onNonNull = None,
      onObject = Some (\<lambda>node _.
        let fs = getFields node
        in bindE (mapE (\<lambda>fieldName.
                          bindE (toFlowInputTypeRef (field_type (getProp fs fieldName)))
                            (\<lambda>r. Inr (''+'' @ fieldName @ '': '' @ r @ '','')))
                    (Object_keys fs))
             (\<lambda>ls. Inr (join nl ([''{|''] @ ls @ [''|}''])))),
      onList = None, onEnum = None, onInterface = None, onUnion = None,
      onDefault = Some (\<lambda>node _. Inl (Error (''Missing type name: '' @ String_of node)))\<rparr>"

definition toFlowInputTypeDefinition :: "gtype \<Rightarrow> error + string" where
  "toFlowInputTypeDefinition v = idispatch v inputDefinitionHandlers ()"


definition inputTypeDefs :: "schema \<Rightarrow> error + string list" where
  "inputTypeDefs s =
     bindE (mapE (\<lambda>name.
                    let node = getProp (typeMap s) name
                    in if \<not> isInputObject node then Inr None
                       else bindE (toFlowInputTypeDefinition node)
                              (\<lambda>d. Inr (Some (''type '' @ name @ '' = '' @ d @ '';'' @ nl))))
              (namedTypesFromSchema s))
       (\<lambda>xs. Inr (filterBoolean xs))"


definition resolverDefs :: "schema \<Rightarrow> error + string list" where
  "resolverDefs s =
     bindE (mapE (\<lambda>name.
                    let node = getProp (typeMap s) name
                    in if isInputObject node then Inr None
                       else bindE (toResolverTypeDefinition node) (\<lambda>d. Inr (Some d)))
              (filter (\<lambda>name. \<not> isUnion (getProp (typeMap s) name)) (namedTypesFromSchema s)))
       (\<lambda>xs. Inr (filterBoolean xs))"

definition scalarTypeNames :: "schema \<Rightarrow> string list" where
  "scalarTypeNames s =
     filter (\<lambda>name. isScalar (getProp (typeMap s) name))
       (filter (\<lambda>name. name \<notin> BUILTINS) (namedTypesFromSchema s))"

definition typesModelNames :: "schema \<Rightarrow> string list" where
  "typesModelNames s =
     filter (\<lambda>name. isObject (getProp (typeMap s) name))
       (filter (\<lambda>name. name \<notin> ROOT_TYPES) (namedTypesFromSchema s))"

definition resolverTypesModule :: "schema \<Rightarrow> string list \<Rightarrow> string list \<Rightarrow> ModuleBuilder" where
  "resolverTypesModule s inputDefs resolverDs =
     emitCallback
       (\<lambda>b0.
          let b1 = addTypeImport ''GraphQLResolveInfo'' ''graphql''
                     (addTypeImport ''Context'' ''../context'' b0);
              b2 = foldl (\<lambda>b imp. addTypeImport imp ''../scalars'' b) b1 (scalarTypeNames s);
              b3 = foldl (\<lambda>b imp. addTypeImport imp ''../models'' b) b2 (typesModelNames s)
          in (nl @ ''            type Resolver<P, T, A = {| ...null |}> = ('' @ nl
              @ ''                parent: P,'' @ nl @ ''                args: A,'' @ nl
              @ ''                context: Context,'' @ nl
              @ ''                info: GraphQLResolveInfo,'' @ nl
              @ ''            ) => T | Promise<T>;'' @ nl @ nl @ ''            ''
              @ join (nl @ nl) (interfaceDefs s) @ nl @ ''            ''
              @ join (nl @ nl) inputDefs @ nl @ ''            ''
              @ join (nl @ nl) resolverDs @ nl @ ''        '',
              b3))
       (newModuleBuilder HEADER_COMMENT)"

definition writeResolverTypes :: "env \<Rightarrow> schema \<Rightarrow> string \<Rightarrow> unit io" where
  "writeResolverTypes E s outputFile =
     bindIO (liftE (inputTypeDefs s)) (\<lambda>inputDefs.
     bindIO (liftE (resolverDefs s)) (\<lambda>resolverDs.
     bindIO (liftE (toString (resolverTypesModule s inputDefs resolverDs))) (\<lambda>code.
       writeCode E code outputFile)))"

subsection \<open>The context and models scaffolds\<close>

definition scaffoldState :: "env \<Rightarrow> string \<Rightarrow> (string \<times> string list) io" where
  "scaffoldState E outputFile =
     (\<lambda>w. if \<not> existsSync w outputFile
          then returnIO (''// @flow'' @ nl @ nl, []) w
          else bindIO (readFile outputFile) (\<lambda>origCode.
               bindIO (getExportsFromPath E outputFile) (\<lambda>exports.
                 returnIO (origCode, exports))) w)"

definition writeContextScaffold :: "env \<Rightarrow> schema \<Rightarrow> string \<Rightarrow> unit io" where
  "writeContextScaffold E s outputFile =
     bindIO (scaffoldState E outputFile) (\<lambda>(origCode, exports).
       let code1 = (if ''Context'' \<notin> set exports
                    then origCode @
                      nl @ nl
                      @ ''            // TODO: Replace with your custom Context, as desired''
                      @ nl @ ''            export type Context = mixed;'' @ nl
                      @ ''        ''
                    else origCode);
           code = (if ''makeContext'' \<notin> set exports
                   then code1 @
                     nl @ nl
                     @ ''            export function makeContext(req: express$Request): Context {''
                     @ nl
                     @ ''                // TODO: Implement your own initial context for the current request''
                     @ nl @ ''                return null;'' @ nl @ ''            }'' @ nl
                     @ ''        ''
                   else code1)
       in if code \<noteq> origCode then writeCode E code outputFile else returnIO ())"

definition modelNames :: "schema \<Rightarrow> string list" where
  "modelNames s =
     filter (\<lambda>name. name \<notin> ROOT_TYPES)
       (filter (\<lambda>name. typeIs isObject s name) (namedTypesFromSchema s))"

definition writeModelsScaffold :: "env \<Rightarrow> schema \<Rightarrow> string \<Rightarrow> unit io" where
  "writeModelsScaffold E s outputFile =
     bindIO (scaffoldState E outputFile) (\<lambda>(origCode, exportedTypes).
       let missingModelNames = filter (\<lambda>name. name \<notin> set exportedTypes) (modelNames s)
       in if 0 < length missingModelNames
          then writeCode E
                 (nl @ ''            '' @ origCode @ nl @ nl @ ''            ''
                  @ join nl (map (\<lambda>name. ''export type '' @ name @ '' = TODO; // TODO: Replace this with your own data type'') missingModelNames)
                  @ nl @ ''        '')
                 outputFile
          else returnIO ())"

subsection \<open>The run\<close>

text \<open>
  What a task resolves to: \<open>undefined\<close> or a boolean. \<open>runWithOptions\<close> ends the process
  with code 1 when some result is neither \<open>undefined\<close> nor truthy, and returns
  otherwise. \<open>exitCode\<close> is the code the process ends with: 1 after \<open>process.exit(1)\<close>,
  also from the handler of a thrown error, 0 when the run returns.
\<close>

datatype rv = Undefined | Boolean bool

datatype outcome = Exited nat | Returned

definition voidTask :: "unit io \<Rightarrow> rv io" where
  "voidTask t = bindIO t (\<lambda>_. returnIO Undefined)"

definition boolTask :: "bool io \<Rightarrow> rv io" where
  "boolTask t = bindIO t (\<lambda>b. returnIO (Boolean b))"

text \<open>The array of the six tasks that \<open>runWithOptions\<close> passes to \<open>Promise.all\<close>.\<close>

definition generators :: "env \<Rightarrow> schema \<Rightarrow> string \<Rightarrow> rv io list" where
  "generators E s schemaDir =
     [voidTask (writeResolverTypes E s (path_resolve schemaDir ''types/index.js'')),
      voidTask (writeContextScaffold E s (path_resolve schemaDir ''context/index.js'')),
      voidTask (writeModelsScaffold E s (path_resolve schemaDir ''models/index.js'')),
      voidTask (writeScalarImpls E s (path_resolve schemaDir ''scalars/'')),
      boolTask (writeInterfaceImpls E s (path_resolve schemaDir ''interfaces/'')),
      boolTask (writeResolverImpls E s (path_resolve schemaDir ''resolvers/''))]"

definition runWithOptions :: "env \<Rightarrow> string \<Rightarrow> outcome io" where
  "runWithOptions E schemaFile =
     (let schemaDir = path_dirname schemaFile
      in bindIO (readFile schemaFile) (\<lambda>text.
         bindIO (liftE (buildSchema E text)) (\<lambda>s.
         bindIO (Promise_all (generators E s schemaDir)) (\<lambda>results.
           if \<not> list_all (\<lambda>rv. rv = Undefined \<or> rv = Boolean True) results
           then returnIO (Exited 1)
           else returnIO Returned))))"

definition exitCode :: "env \<Rightarrow> string \<Rightarrow> world \<Rightarrow> nat" where
  "exitCode E schemaFile w =
     (case fst (runWithOptions E schemaFile w) of
        Inl e \<Rightarrow> 1
      | Inr (Exited n) \<Rightarrow> n
      | Inr Returned \<Rightarrow> 0)"

section \<open>An example project\<close>

text \<open>
  Collaborators for the examples: the schema builder returns a given schema, the
  formatter returns its input, the export scanner reads the text of a module as the
  list of the names it exports, separated by blanks, and nothing is coloured or
  relativised. \<open>lowerCaseFirst\<close> lowers the first character.
\<close>

fun splitBlanks :: "string \<Rightarrow> string list" where
  "splitBlanks [] = []"
| "splitBlanks (c # cs) =
     (if c = CHR '' '' then splitBlanks cs
      else (case splitBlanks cs of
              [] \<Rightarrow> [[c]]
            | x # xs \<Rightarrow> (case cs of
                           [] \<Rightarrow> [[c]]
                         | d # _ \<Rightarrow> if d = CHR '' '' then [c] # x # xs else (c # x) # xs)))"

definition lowerFirst :: "string \<Rightarrow> string" where
  "lowerFirst s = (case s of [] \<Rightarrow> [] | c # cs \<Rightarrow> lowerChar c # cs)"

definition exampleEnv :: "schema \<Rightarrow> env" where
  "exampleEnv s =
     \<lparr>buildSchema = (\<lambda>_. Inr s),
      prettify = (\<lambda>code. Inr code),
      scanExports = (\<lambda>code. Inr (splitBlanks code)),
      yellow = (\<lambda>x. x),
      relative = (\<lambda>p. p),
      lowerCaseFirst = lowerFirst\<rparr>"

text \<open>
  The schema \<open>scalar Date\<close>, \<open>type Query { now: Date }\<close>, with the builtin scalar
  \<open>String\<close> and the introspection type \<open>__Schema\<close> in its type map.
\<close>

definition dateSchema :: schema where
  "dateSchema =
     \<lparr>typeMap =
        [(''Query'', GraphQLObjectType ''Query'' []
            [(''now'', GraphQLField ''now'' (GraphQLScalarType ''Date'') [])]),
         (''Date'', GraphQLScalarType ''Date''),
         (''String'', GraphQLScalarType ''String''),
         (''__Schema'', GraphQLObjectType ''__Schema'' [] [])],
      descriptions = []\<rparr>"

text \<open>
  A project directory \<open>/p\<close> after an earlier run, with all output directories. In
  \<open>orphanProject\<close> the directory of the scalars holds a valid \<open>Date.js\<close> and a file
  \<open>Old.js\<close> of a scalar that the schema no longer has. In \<open>brokenProject\<close> the file
  \<open>Date.js\<close> exports \<open>Date\<close> and \<open>serialize\<close>, and no \<open>decoder\<close>.
\<close>

definition projectDirs :: "string list" where
  "projectDirs =
     [''/p'', ''/p/types'', ''/p/context'', ''/p/models'', ''/p/scalars'', ''/p/interfaces'',
      ''/p/resolvers'']"

definition orphanProject :: world where
  "orphanProject =
     \<lparr>files =
        [(''/p/schema.graphql'', ''scalar Date type Query { now: Date }''),
         (''/p/scalars/Date.js'', ''Date serialize decoder''),
         (''/p/scalars/Old.js'', ''Old serialize decoder'')],
      dirs = projectDirs, stderr = []\<rparr>"


section \<open>The files a task may create\<close>

text \<open>
  \<open>writesOnly P t\<close>: whatever the state before, the files after the task \<open>t\<close>, whether
  it returns or throws, are files from before or have their path in \<open>P\<close>. The sets of
  paths are those of the three directory categories and of a whole run.
\<close>

definition writesOnly :: "string set \<Rightarrow> 'a io \<Rightarrow> bool" where
  "writesOnly P t =
     (\<forall>w. set (Object_keys (files (snd (t w)))) \<subseteq> set (Object_keys (files w)) \<union> P)"

definition scalarPaths :: "schema \<Rightarrow> string \<Rightarrow> string set" where
  "scalarPaths s dir =
     insert (path_resolve dir ''index.js'')
       ((\<lambda>name. path_resolve dir (name @ ''.js'')) ` set (scalarNames s))"

definition interfacePaths :: "schema \<Rightarrow> string \<Rightarrow> string set" where
  "interfacePaths s dir = (\<lambda>name. path_resolve dir (name @ ''.js'')) ` set (interfaceNames s)"

definition resolverPaths :: "schema \<Rightarrow> string \<Rightarrow> string set" where
  "resolverPaths s dir =
     insert (path_resolve dir ''index.js'')
       ((\<lambda>name. path_resolve dir (name @ ''Resolver.js'')) ` set (objectNames s))"

definition outputPaths :: "schema \<Rightarrow> string \<Rightarrow> string set" where
  "outputPaths s schemaDir =
     {path_resolve schemaDir ''types/index.js'', path_resolve schemaDir ''context/index.js'',
      path_resolve schemaDir ''models/index.js''} \<union>
     scalarPaths s (path_resolve schemaDir ''scalars/'') \<union>
     interfacePaths s (path_resolve schemaDir ''interfaces/'') \<union>
     resolverPaths s (path_resolve schemaDir ''resolvers/'')"

section \<open>Verified properties\<close>

subsection \<open>Helper lemmas\<close>

lemma bindE_simps [simp]:
  "bindE (Inl e) f = Inl e"
  "bindE (Inr x) f = f x"
  by (simp_all add: bindE_def)


lemma bindE_Inl: "bindE m f = Inl e \<longleftrightarrow> (m = Inl e \<or> (\<exists>x. m = Inr x \<and> f x = Inl e))"
  by (cases m) simp_all

lemma startsWith_prefix: "startsWith s p = prefix p s"
  by (metis startsWith_def append_eq_conv_conj prefix_def take_is_prefix prefixE)




subsection \<open>The dispatchers\<close>

lemma odispatch_unhandled:
  assumes "\<not> ohandled v d"
  shows "odispatch v d c =
    (case onDefault d of None \<Rightarrow> Inl (Error (unhandledMessage v)) | Some h \<Rightarrow> h v c)"
proof -
  have h: "\<not> (isScalar v \<and> onScalar d \<noteq> None)" "\<not> (isNonNull v \<and> onNonNull d \<noteq> None)"
    "\<not> (isObject v \<and> onObject d \<noteq> None)" "\<not> (isList v \<and> onList d \<noteq> None)"
    "\<not> (isEnum v \<and> onEnum d \<noteq> None)" "\<not> (isInterface v \<and> onInterface d \<noteq> None)"
    "\<not> (isUnion v \<and> onUnion d \<noteq> None)"
    using assms unfolding ohandled_def by blast+
  show ?thesis
    unfolding odispatch_def by (simp only: h if_False)
qed

lemma idispatch_unhandled:
  assumes "\<not> ihandled v d"
  shows "idispatch v d c =
    (case onDefault d of None \<Rightarrow> Inl (TypeError ''dispatchers.default is not a function'')
     | Some h \<Rightarrow> h v c)"
proof -
  have h: "\<not> (isScalar v \<and> onScalar d \<noteq> None)" "\<not> (isEnum v \<and> onEnum d \<noteq> None)"
    "\<not> (isInputObject v \<and> onObject d \<noteq> None)" "\<not> (isList v \<and> onList d \<noteq> None)"
    "\<not> (isNonNull v \<and> onNonNull d \<noteq> None)"
    using assms unfolding ihandled_def by blast+
  show ?thesis
    unfolding idispatch_def by (simp only: h if_False)
qed

text \<open>
  C5. A node whose variant has no handler in the mapping, dispatched without a default
  handler: \<open>odispatch\<close> throws the error whose message names the node
  (\<open>unhandledMessage\<close>). \<open>idispatch\<close> does not: it calls the absent default handler,
  and the runtime raises a \<open>TypeError\<close> that does not name the node. The output-position
  dispatcher tests \<open>dispatchers.default\<close> before the call; the input-position one
  misses that test.
\<close>

theorem dispatch_without_default:
  assumes "onDefault d = None"
  shows "(\<not> ohandled v d \<longrightarrow> odispatch v d c = Inl (Error (unhandledMessage v))) \<and>
         (\<not> ihandled v d \<longrightarrow>
            idispatch v d c = Inl (TypeError ''dispatchers.default is not a function''))"
  using assms by (simp add: odispatch_unhandled idispatch_unhandled)

theorem dispatch_without_default_at_Date:
  "odispatch (GraphQLScalarType ''Date'') (noDispatchers :: (unit, unit) dispatchers) () =
     Inl (Error (''Dispatcher does not handle node of type '' @ dq @ ''Date'' @ dq @
       '', and also does not define a default handler'')) \<and>
   idispatch (GraphQLScalarType ''Date'') (noDispatchers :: (unit, unit) dispatchers) () =
     Inl (TypeError ''dispatchers.default is not a function'')"
  using dispatch_without_default
    [of "noDispatchers :: (unit, unit) dispatchers" "GraphQLScalarType ''Date''" "()"]
  by (simp add: noDispatchers_def ohandled_def ihandled_def unhandledMessage_def)

subsection \<open>The canonical type index\<close>

lemma namedTypes_sorted: "sorted (namedTypesFromSchema s)"
  by (simp add: namedTypesFromSchema_def sortBy_def Let_def)

lemma namedTypes_set:
  "set (namedTypesFromSchema s) =
     {n \<in> set (Object_keys (typeMap s)). \<not> startsWith n ''__'' \<and> n \<notin> BUILTINS}"
  unfolding namedTypesFromSchema_def sortBy_def Let_def set_sort set_filter by blast

lemma namedTypes_distinct:
  "distinct (Object_keys (typeMap s)) \<Longrightarrow> distinct (namedTypesFromSchema s)"
  unfolding namedTypesFromSchema_def sortBy_def Let_def distinct_sort
  by (intro distinct_filter)

lemma namedTypes_keys_only:
  assumes "distinct (Object_keys (typeMap s))" "distinct (Object_keys (typeMap s'))"
    and "set (Object_keys (typeMap s)) = set (Object_keys (typeMap s'))"
  shows "namedTypesFromSchema s = namedTypesFromSchema s'"
proof -
  have "set (namedTypesFromSchema s) = set (namedTypesFromSchema s')"
    using assms(3) by (simp only: namedTypes_set)
  then show ?thesis
    by (intro sorted_distinct_set_unique namedTypes_sorted namedTypes_distinct assms(1,2))
qed

text \<open>
  C3, as the code has it. The canonical type index holds exactly the keys of the type map
  that neither start with \<open>__\<close> nor name one of the five builtin scalars; the root type
  names \<open>Query\<close> and \<open>Mutation\<close> are not taken out. It is sorted ascending (strings
  compared code unit by code unit) and has no duplicates. It is a function of the set of
  type names alone: two type maps with the same keys, in whatever order, give the same
  index.
\<close>

theorem namedTypesFromSchema_index:
  "sorted (namedTypesFromSchema s) \<and>
   set (namedTypesFromSchema s) =
     {n \<in> set (Object_keys (typeMap s)). \<not> startsWith n ''__'' \<and> n \<notin> BUILTINS} \<and>
   (distinct (Object_keys (typeMap s)) \<longrightarrow> distinct (namedTypesFromSchema s)) \<and>
   (distinct (Object_keys (typeMap s)) \<and> distinct (Object_keys (typeMap s')) \<and>
    set (Object_keys (typeMap s)) = set (Object_keys (typeMap s')) \<longrightarrow>
      namedTypesFromSchema s = namedTypesFromSchema s')"
  using namedTypes_sorted namedTypes_set namedTypes_distinct namedTypes_keys_only
  by blast

theorem namedTypesFromSchema_index_witness:
  "sorted (namedTypesFromSchema
     \<lparr>typeMap = [(''User'', GraphQLObjectType ''User'' [] []),
                 (''Query'', GraphQLObjectType ''Query'' [] []),
                 (''String'', GraphQLScalarType ''String'')], descriptions = []\<rparr>) \<and>
   distinct (namedTypesFromSchema
     \<lparr>typeMap = [(''User'', GraphQLObjectType ''User'' [] []),
                 (''Query'', GraphQLObjectType ''Query'' [] []),
                 (''String'', GraphQLScalarType ''String'')], descriptions = []\<rparr>) \<and>
   namedTypesFromSchema
     \<lparr>typeMap = [(''User'', GraphQLObjectType ''User'' [] []),
                 (''Query'', GraphQLObjectType ''Query'' [] []),
                 (''String'', GraphQLScalarType ''String'')], descriptions = []\<rparr> =
   namedTypesFromSchema
     \<lparr>typeMap = [(''String'', GraphQLScalarType ''String''),
                 (''Query'', GraphQLObjectType ''Query'' [] []),
                 (''User'', GraphQLObjectType ''User'' [] [])], descriptions = []\<rparr>"
proof -
  let ?s = "\<lparr>typeMap = [(''User'', GraphQLObjectType ''User'' [] []),
                 (''Query'', GraphQLObjectType ''Query'' [] []),
                 (''String'', GraphQLScalarType ''String'')], descriptions = []\<rparr>"
  let ?s' = "\<lparr>typeMap = [(''String'', GraphQLScalarType ''String''),
                 (''Query'', GraphQLObjectType ''Query'' [] []),
                 (''User'', GraphQLObjectType ''User'' [] [])], descriptions = []\<rparr>"
  have keys: "distinct (Object_keys (typeMap ?s)) \<and> distinct (Object_keys (typeMap ?s')) \<and>
    set (Object_keys (typeMap ?s)) = set (Object_keys (typeMap ?s'))"
    by (simp add: Object_keys_def insert_commute)
  show ?thesis
    using namedTypesFromSchema_index [of ?s ?s'] keys by blast
qed

text \<open>
  The index of a schema with the types \<open>Query\<close>, \<open>User\<close>, \<open>String\<close>, \<open>__Schema\<close> and
  \<open>Mutation\<close>: both root type names are in it.
\<close>

theorem index_keeps_root_types:
  "namedTypesFromSchema
     \<lparr>typeMap = [(''Query'', GraphQLObjectType ''Query'' [] []),
                 (''User'', GraphQLObjectType ''User'' [] []),
                 (''String'', GraphQLScalarType ''String''),
                 (''__Schema'', GraphQLObjectType ''__Schema'' [] []),
                 (''Mutation'', GraphQLObjectType ''Mutation'' [] [])], descriptions = []\<rparr> =
   [''Mutation'', ''Query'', ''User''] \<and> ''Query'' \<in> ROOT_TYPES \<and> ''Mutation'' \<in> ROOT_TYPES"
  by (simp add: namedTypesFromSchema_def sortBy_def startsWith_def BUILTINS_def ROOT_TYPES_def
      Object_keys_def less_eq_list_code less_list_code)

subsection \<open>Type references\<close>

text \<open>The renderers written by cases are the dispatches of the source.\<close>

lemma toFlowOutputTypeRef_dispatch:
  "toFlowOutputTypeRef v = odispatch v outputRefHandlers ()"
  by (cases v) (simp_all add: odispatch_def outputRefHandlers_def)

lemma toFlowInputTypeRef_dispatch:
  "toFlowInputTypeRef v = idispatch v inputRefHandlers ()"
  by (cases v) (simp_all add: idispatch_def inputRefHandlers_def)










subsection \<open>ModuleBuilder\<close>



lemma Set_add_member: "x \<in> set (Set_add x xs)"
  by (simp add: Set_add_def)




lemma Map_set_keys:
  "map fst (Map_set k v m) = (if k \<in> fst ` set m then map fst m else map fst m @ [k])"
  by (induction m) (force simp: image_iff)+




lemma named_fresh:
  "namedImports (addNamedImport x m (newModuleBuilder c)) = [(m, [x])]"
  by (simp add: addNamedImport_def newModuleBuilder_def Map_get_def Set_add_def)






lemma sortBy_distinct: "distinct (sortBy f xs) = distinct xs"
  by (simp add: sortBy_def)

















subsection \<open>Concrete subtypes\<close>

lemma getConcreteSubtypes_union:
  "getType s name = Some (GraphQLUnionType n ts) \<Longrightarrow>
     getConcreteSubtypes s name = map name_of ts"
  by (simp add: getConcreteSubtypes_def)

lemma getConcreteSubtypes_interface:
  "getType s name = Some (GraphQLInterfaceType n fs) \<Longrightarrow>
     getConcreteSubtypes s name =
       filter (\<lambda>typename. case getType s typename of None \<Rightarrow> False
                 | Some t \<Rightarrow> isObject t \<and> (\<exists>iface \<in> set (getInterfaces t). name_of iface = name))
         (namedTypesFromSchema s)"
  by (simp add: getConcreteSubtypes_def)

text \<open>
  C4, as the code has it. For an interface type, the concrete subtypes are the object
  types of the canonical type index that list the interface, in the order of the index
  (so sorted). For a union type, they are the names of its member types in the order
  of \<open>getTypes()\<close>, the declaration order. Both aliases list these names in this order.
\<close>

theorem concrete_subtypes_order:
  "(getType s name = Some (GraphQLInterfaceType n fs) \<longrightarrow>
      sorted (getConcreteSubtypes s name) \<and>
      subseq (getConcreteSubtypes s name) (namedTypesFromSchema s) \<and>
      set (getConcreteSubtypes s name) =
        {typename \<in> set (namedTypesFromSchema s).
           \<exists>t. getType s typename = Some t \<and> isObject t \<and>
               name \<in> name_of ` set (getInterfaces t)}) \<and>
   (getType s name = Some (GraphQLUnionType n ts) \<longrightarrow>
      getConcreteSubtypes s name = map name_of ts) \<and>
   interfaceDef s name =
     nl @ replicate 16 CHR '' '' @ ''export type '' @ name @ '' = '' @
       join '' | '' (getConcreteSubtypes s name) @ '';'' @
     nl @ replicate 16 CHR '' '' @ ''export type '' @ name @ ''$typename = '' @
       join '' | '' (map JSON_stringify (getConcreteSubtypes s name)) @ '';'' @
     nl @ replicate 12 CHR '' ''"
proof (intro conjI impI)
  assume i: "getType s name = Some (GraphQLInterfaceType n fs)"
  show "sorted (getConcreteSubtypes s name)"
    unfolding getConcreteSubtypes_interface[OF i]
    by (intro sorted_wrt_filter namedTypes_sorted)
  show "subseq (getConcreteSubtypes s name) (namedTypesFromSchema s)"
    unfolding getConcreteSubtypes_interface[OF i] by (rule subseq_filter_left)
  show "set (getConcreteSubtypes s name) =
        {typename \<in> set (namedTypesFromSchema s).
           \<exists>t. getType s typename = Some t \<and> isObject t \<and>
               name \<in> name_of ` set (getInterfaces t)}"
    unfolding getConcreteSubtypes_interface[OF i]
    by (auto split: option.splits)
next
  assume "getType s name = Some (GraphQLUnionType n ts)"
  then show "getConcreteSubtypes s name = map name_of ts"
    by (rule getConcreteSubtypes_union)
next
  show "interfaceDef s name =
     nl @ replicate 16 CHR '' '' @ ''export type '' @ name @ '' = '' @
       join '' | '' (getConcreteSubtypes s name) @ '';'' @
     nl @ replicate 16 CHR '' '' @ ''export type '' @ name @ ''$typename = '' @
       join '' | '' (map JSON_stringify (getConcreteSubtypes s name)) @ '';'' @
     nl @ replicate 12 CHR '' ''"
    by (simp add: interfaceDef_def Let_def)
qed

theorem concrete_subtypes_order_witness:
  "sorted (getConcreteSubtypes unionSchema ''I'') \<and>
   subseq (getConcreteSubtypes unionSchema ''I'') (namedTypesFromSchema unionSchema) \<and>
   getConcreteSubtypes unionSchema ''U'' = [''B'', ''A'']"
proof -
  have i: "getType unionSchema ''I'' = Some (GraphQLInterfaceType ''I'' [])"
    by (simp add: getType_def unionSchema_def)
  have u: "getType unionSchema ''U'' =
      Some (GraphQLUnionType ''U''
            [GraphQLObjectType ''B'' [GraphQLInterfaceType ''I'' []] [],
             GraphQLObjectType ''A'' [GraphQLInterfaceType ''I'' []] []])"
    by (simp add: getType_def unionSchema_def)
  have "getConcreteSubtypes unionSchema ''U'' =
      map name_of [GraphQLObjectType ''B'' [GraphQLInterfaceType ''I'' []] [],
             GraphQLObjectType ''A'' [GraphQLInterfaceType ''I'' []] []]"
    using concrete_subtypes_order
      [where s = unionSchema and name = "''U''" and n = "''U''" and
         ts = "[GraphQLObjectType ''B'' [GraphQLInterfaceType ''I'' []] [],
                GraphQLObjectType ''A'' [GraphQLInterfaceType ''I'' []] []]"]
      u by blast
  then have "getConcreteSubtypes unionSchema ''U'' = [''B'', ''A'']" by simp
  then show ?thesis
    using concrete_subtypes_order
      [where s = unionSchema and name = "''I''" and n = "''I''" and fs = "[]"]
      i by blast
qed

text \<open>
  In \<open>unionSchema\<close> the canonical type index is \<open>A, B, I, U\<close>. The aliases of the
  interface \<open>I\<close> list \<open>A\<close> before \<open>B\<close>; those of the union \<open>U\<close> list \<open>B\<close> before \<open>A\<close>,
  as the union declares them.
\<close>

theorem union_members_in_declaration_order:
  "namedTypesFromSchema unionSchema = [''A'', ''B'', ''I'', ''U''] \<and>
   getConcreteSubtypes unionSchema ''I'' = [''A'', ''B''] \<and>
   getConcreteSubtypes unionSchema ''U'' = [''B'', ''A''] \<and>
   interfaceDef unionSchema ''U'' =
     nl @ replicate 16 CHR '' '' @ ''export type U = B | A;'' @
     nl @ replicate 16 CHR '' '' @ ''export type U$typename = '' @
       dq @ ''B'' @ dq @ '' | '' @ dq @ ''A'' @ dq @ '';'' @
     nl @ replicate 12 CHR '' ''"
  by code_simp

subsection \<open>The resolver shape of an object type\<close>












subsection \<open>The check of an output directory\<close>

lemma bindIO_Inr: "m w = (Inr x, w') \<Longrightarrow> bindIO m f w = f x w'"
  by (simp add: bindIO_def)

lemma bindIO_Inl: "m w = (Inl e, w') \<Longrightarrow> bindIO m f w = (Inl e, w')"
  by (simp add: bindIO_def)

lemma readdir_exists: "dir \<in> set (dirs w) \<Longrightarrow> readdir dir w = (Inr (listing w dir), w)"
  by (simp add: readdir_def)

lemma checkOutputDir_cases:
  assumes "dir \<in> set (dirs w)"
  shows "checkOutputDir E dir pattern expectedFiles w =
     (if unexpectedFiles dir pattern expectedFiles (listing w dir) = []
      then (Inr True, w)
      else (Inr False,
            w\<lparr>stderr := stderr w @
               warningLines E dir (unexpectedFiles dir pattern expectedFiles (listing w dir))\<rparr>))"
  unfolding checkOutputDir_def
  by (simp add: readdir_exists[OF assms] Let_def bindIO_def console_error_def returnIO_def)

lemma unexpectedFiles_empty:
  "unexpectedFiles dir pattern expectedFiles ls = [] \<longleftrightarrow>
     (\<forall>f \<in> set ls. pattern (path_resolve dir f) \<longrightarrow>
        path_resolve dir f \<in> path_resolve dir ` set expectedFiles)"
proof -
  have "unexpectedFiles dir pattern expectedFiles ls = [] \<longleftrightarrow>
     set (unexpectedFiles dir pattern expectedFiles ls) = {}"
    by simp
  also have "\<dots> \<longleftrightarrow> (\<forall>f \<in> set ls. pattern (path_resolve dir f) \<longrightarrow>
        path_resolve dir f \<in> path_resolve dir ` set expectedFiles)"
    unfolding unexpectedFiles_def Let_def sortBy_def set_sort by auto
  finally show ?thesis .
qed

lemma checkOutputDir_True_iff:
  assumes "dir \<in> set (dirs w)"
  shows "checkOutputDir E dir pattern expectedFiles w = (Inr True, w) \<longleftrightarrow>
     (\<forall>f \<in> set (listing w dir). pattern (path_resolve dir f) \<longrightarrow>
        path_resolve dir f \<in> path_resolve dir ` set expectedFiles)"
  by (simp add: checkOutputDir_cases[OF assms] unexpectedFiles_empty)

text \<open>
  C9. In a directory that exists, \<open>checkOutputDir\<close> returns \<open>true\<close>, and prints
  nothing, exactly when every entry that matches the pattern is one of the expected
  files; whether the expected files are among the entries plays no part. Otherwise it
  returns \<open>false\<close> after printing the warning, whose lines name the unexpected files
  only. So a check that passes still passes when more files are expected, present or
  not.
\<close>

theorem checkOutputDir_one_sided:
  assumes "dir \<in> set (dirs w)"
  shows "(checkOutputDir E dir pattern expectedFiles w = (Inr True, w) \<longleftrightarrow>
            (\<forall>f \<in> set (listing w dir). pattern (path_resolve dir f) \<longrightarrow>
               path_resolve dir f \<in> path_resolve dir ` set expectedFiles)) \<and>
         (checkOutputDir E dir pattern expectedFiles w \<noteq> (Inr True, w) \<longrightarrow>
            checkOutputDir E dir pattern expectedFiles w =
              (Inr False,
               w\<lparr>stderr := stderr w @
                  warningLines E dir
                    (unexpectedFiles dir pattern expectedFiles (listing w dir))\<rparr>)) \<and>
         (set expectedFiles \<subseteq> set moreFiles \<and>
          checkOutputDir E dir pattern expectedFiles w = (Inr True, w) \<longrightarrow>
            checkOutputDir E dir pattern moreFiles w = (Inr True, w))"
proof (intro conjI impI)
  show "checkOutputDir E dir pattern expectedFiles w = (Inr True, w) \<longleftrightarrow>
            (\<forall>f \<in> set (listing w dir). pattern (path_resolve dir f) \<longrightarrow>
               path_resolve dir f \<in> path_resolve dir ` set expectedFiles)"
    by (rule checkOutputDir_True_iff[OF assms])
next
  assume "checkOutputDir E dir pattern expectedFiles w \<noteq> (Inr True, w)"
  then show "checkOutputDir E dir pattern expectedFiles w =
              (Inr False,
               w\<lparr>stderr := stderr w @
                  warningLines E dir
                    (unexpectedFiles dir pattern expectedFiles (listing w dir))\<rparr>)"
    by (simp add: checkOutputDir_cases[OF assms] split: if_splits)
next
  assume h: "set expectedFiles \<subseteq> set moreFiles \<and>
          checkOutputDir E dir pattern expectedFiles w = (Inr True, w)"
  then have "\<forall>f \<in> set (listing w dir). pattern (path_resolve dir f) \<longrightarrow>
               path_resolve dir f \<in> path_resolve dir ` set expectedFiles"
    by (simp add: checkOutputDir_True_iff[OF assms])
  then have "\<forall>f \<in> set (listing w dir). pattern (path_resolve dir f) \<longrightarrow>
               path_resolve dir f \<in> path_resolve dir ` set moreFiles"
    using h by blast
  then show "checkOutputDir E dir pattern moreFiles w = (Inr True, w)"
    by (simp add: checkOutputDir_True_iff[OF assms])
qed

theorem checkOutputDir_one_sided_witness:
  "checkOutputDir (exampleEnv dateSchema) ''/p/scalars'' jsPattern
     [''Date.js'', ''Old.js'', ''Missing.js''] orphanProject = (Inr True, orphanProject)"
proof -
  have d: "''/p/scalars'' \<in> set (dirs orphanProject)"
    by (simp add: orphanProject_def projectDirs_def)
  have l: "listing orphanProject ''/p/scalars'' = [''Date.js'', ''Old.js'']"
    by code_simp
  have r: "path_resolve ''/p/scalars'' ''Date.js'' = ''/p/scalars/Date.js''"
    "path_resolve ''/p/scalars'' ''Old.js'' = ''/p/scalars/Old.js''"
    by (simp_all add: path_resolve_def startsWith_def stripTrailingSlash_def)
  have "\<forall>f \<in> set (listing orphanProject ''/p/scalars'').
     jsPattern (path_resolve ''/p/scalars'' f) \<longrightarrow>
     path_resolve ''/p/scalars'' f \<in>
       path_resolve ''/p/scalars'' ` set [''Date.js'', ''Old.js'', ''Missing.js'']"
    by (simp add: l)
  then show ?thesis
    using checkOutputDir_one_sided
      [OF d, of "exampleEnv dateSchema" jsPattern "[''Date.js'', ''Old.js'', ''Missing.js'']" "[]"]
    by blast
qed

subsection \<open>Scalar implementations\<close>






subsection \<open>Tasks and the exit code\<close>

lemma voidTask_result:
  "voidTask t w = (Inr r, w') \<Longrightarrow> r = Undefined \<and> t w = (Inr (), w')"
  by (auto simp: voidTask_def bindIO_def returnIO_def split: prod.splits sum.splits)

lemma boolTask_result: "boolTask t w = (Inr r, w') \<Longrightarrow> \<exists>b. r = Boolean b \<and> t w = (Inr b, w')"
  by (auto simp: boolTask_def bindIO_def returnIO_def split: prod.splits sum.splits)

lemma Promise_all_Cons:
  "Promise_all (t # ts) w = (Inr rs, w') \<longleftrightarrow>
     (\<exists>r rs' w1. t w = (Inr r, w1) \<and> Promise_all ts w1 = (Inr rs', w') \<and> rs = r # rs')"
  by (auto simp: bindIO_def returnIO_def split: prod.splits sum.splits)

lemma Promise_all_Nil: "Promise_all [] w = (Inr rs, w') \<longleftrightarrow> rs = [] \<and> w' = w"
  by (auto simp: returnIO_def)

lemma generators_results:
  assumes "Promise_all (generators E s dir) w = (Inr results, w')"
  shows "\<exists>b5 b6 w3 w4 w5.
     results = [Undefined, Undefined, Undefined, Undefined, Boolean b5, Boolean b6] \<and>
     writeScalarImpls E s (path_resolve dir ''scalars/'') w3 = (Inr (), w4) \<and>
     writeInterfaceImpls E s (path_resolve dir ''interfaces/'') w4 = (Inr b5, w5) \<and>
     writeResolverImpls E s (path_resolve dir ''resolvers/'') w5 = (Inr b6, w')"
proof -
  from assms obtain r1 r2 r3 r4 r5 r6 w1 w2 w3 w4 w5 where
    r: "results = [r1, r2, r3, r4, r5, r6]"
    and t1: "voidTask (writeResolverTypes E s (path_resolve dir ''types/index.js'')) w = (Inr r1, w1)"
    and t2: "voidTask (writeContextScaffold E s (path_resolve dir ''context/index.js'')) w1 = (Inr r2, w2)"
    and t3: "voidTask (writeModelsScaffold E s (path_resolve dir ''models/index.js'')) w2 = (Inr r3, w3)"
    and t4: "voidTask (writeScalarImpls E s (path_resolve dir ''scalars/'')) w3 = (Inr r4, w4)"
    and t5: "boolTask (writeInterfaceImpls E s (path_resolve dir ''interfaces/'')) w4 = (Inr r5, w5)"
    and t6: "boolTask (writeResolverImpls E s (path_resolve dir ''resolvers/'')) w5 = (Inr r6, w')"
    unfolding generators_def Promise_all_Cons Promise_all_Nil by blast
  show ?thesis
    using r voidTask_result[OF t1] voidTask_result[OF t2] voidTask_result[OF t3]
      voidTask_result[OF t4] boolTask_result[OF t5] boolTask_result[OF t6]
    by blast
qed

lemma runWithOptions_built:
  assumes "map_of (files w) schemaFile = Some text" "buildSchema E text = Inr s"
  shows "runWithOptions E schemaFile w =
     bindIO (Promise_all (generators E s (path_dirname schemaFile))) (\<lambda>results.
           if \<not> list_all (\<lambda>rv. rv = Undefined \<or> rv = Boolean True) results
           then returnIO (Exited 1)
           else returnIO Returned) w"
  using assms
  by (simp add: runWithOptions_def Let_def bindIO_def readFile_def liftE_def)

lemma exitCode_thrown:
  assumes "map_of (files w) schemaFile = Some text" "buildSchema E text = Inr s"
    and "fst (Promise_all (generators E s (path_dirname schemaFile)) w) = Inl e"
  shows "exitCode E schemaFile w = 1"
  using assms(3)
  by (cases "Promise_all (generators E s (path_dirname schemaFile)) w")
     (simp add: exitCode_def runWithOptions_built[OF assms(1,2)] bindIO_def)

lemma exitCode_returned:
  assumes "map_of (files w) schemaFile = Some text" "buildSchema E text = Inr s"
    and "fst (Promise_all (generators E s (path_dirname schemaFile)) w) =
           Inr [Undefined, Undefined, Undefined, Undefined, Boolean b5, Boolean b6]"
  shows "exitCode E schemaFile w = (if b5 \<and> b6 then 0 else 1)"
  using assms(3)
  by (cases "Promise_all (generators E s (path_dirname schemaFile)) w")
     (simp add: exitCode_def runWithOptions_built[OF assms(1,2)] bindIO_def returnIO_def)

lemma writeScalarImpls_drops_check:
  assumes "Promise_all (scalarTasks E s outputDir) w = (Inr fs, w1)"
    and "checkOutputDir E outputDir jsPattern fs w1 = (Inr b, w2)"
  shows "writeScalarImpls E s outputDir w = (Inr (), w2)"
  using assms by (simp add: writeScalarImpls_def bindIO_def returnIO_def)

lemma writeInterfaceImpls_returns_check:
  assumes "Promise_all (interfaceTasks E s outputDir) w = (Inr fs, w1)"
    and "checkOutputDir E outputDir jsPattern fs w1 = (Inr b, w2)"
  shows "writeInterfaceImpls E s outputDir w = (Inr b, w2)"
  using assms by (simp add: writeInterfaceImpls_def bindIO_def)

lemma writeResolverImpls_returns_check:
  assumes "Promise_all (resolverTasks E s outputDir) w = (Inr fs, w1)"
    and "checkOutputDir E outputDir resolverPattern fs w1 = (Inr b, w2)"
  shows "writeResolverImpls E s outputDir w = (Inr b, w2)"
  using assms by (simp add: writeResolverImpls_def bindIO_def)

text \<open>
  C7, as the code has it. The schema file is read and built. If a task throws, the exit
  code is 1. If the six tasks return, their results are \<open>undefined\<close> four times, then
  the booleans of the interface and of the resolver category, and the exit code is 0
  when both are \<open>true\<close> and 1 otherwise. The interface and the resolver category return
  what \<open>checkOutputDir\<close> returns; the scalar category returns \<open>undefined\<close> whatever
  \<open>checkOutputDir\<close> returns, so an unexpected file in the directory of the scalars
  prints the warning and changes neither result nor exit code.
\<close>

theorem exit_code_by_category:
  assumes "map_of (files w) schemaFile = Some text" and "buildSchema E text = Inr s"
  shows "(case fst (Promise_all (generators E s (path_dirname schemaFile)) w) of
            Inl e \<Rightarrow> exitCode E schemaFile w = 1
          | Inr results \<Rightarrow>
              \<exists>b5 b6. results =
                        [Undefined, Undefined, Undefined, Undefined, Boolean b5, Boolean b6] \<and>
                      exitCode E schemaFile w = (if b5 \<and> b6 then 0 else 1)) \<and>
         (Promise_all (scalarTasks E s dirS) wS = (Inr fsS, vS) \<and>
          checkOutputDir E dirS jsPattern fsS vS = (Inr bS, uS) \<longrightarrow>
            writeScalarImpls E s dirS wS = (Inr (), uS)) \<and>
         (Promise_all (interfaceTasks E s dirI) wI = (Inr fsI, vI) \<and>
          checkOutputDir E dirI jsPattern fsI vI = (Inr bI, uI) \<longrightarrow>
            writeInterfaceImpls E s dirI wI = (Inr bI, uI)) \<and>
         (Promise_all (resolverTasks E s dirR) wR = (Inr fsR, vR) \<and>
          checkOutputDir E dirR resolverPattern fsR vR = (Inr bR, uR) \<longrightarrow>
            writeResolverImpls E s dirR wR = (Inr bR, uR))"
proof (intro conjI impI)
  show "case fst (Promise_all (generators E s (path_dirname schemaFile)) w) of
            Inl e \<Rightarrow> exitCode E schemaFile w = 1
          | Inr results \<Rightarrow>
              \<exists>b5 b6. results =
                        [Undefined, Undefined, Undefined, Undefined, Boolean b5, Boolean b6] \<and>
                      exitCode E schemaFile w = (if b5 \<and> b6 then 0 else 1)"
  proof (cases "fst (Promise_all (generators E s (path_dirname schemaFile)) w)")
    case (Inl e)
    then show ?thesis using exitCode_thrown[OF assms] by simp
  next
    case (Inr results)
    then have "Promise_all (generators E s (path_dirname schemaFile)) w =
        (Inr results, snd (Promise_all (generators E s (path_dirname schemaFile)) w))"
      by (metis prod.collapse)
    then obtain b5 b6 where
      r: "results = [Undefined, Undefined, Undefined, Undefined, Boolean b5, Boolean b6]"
      using generators_results by blast
    then show ?thesis using Inr exitCode_returned[OF assms, of b5 b6] by simp
  qed
next
  assume "Promise_all (scalarTasks E s dirS) wS = (Inr fsS, vS) \<and>
          checkOutputDir E dirS jsPattern fsS vS = (Inr bS, uS)"
  then show "writeScalarImpls E s dirS wS = (Inr (), uS)"
    using writeScalarImpls_drops_check by blast
next
  assume "Promise_all (interfaceTasks E s dirI) wI = (Inr fsI, vI) \<and>
          checkOutputDir E dirI jsPattern fsI vI = (Inr bI, uI)"
  then show "writeInterfaceImpls E s dirI wI = (Inr bI, uI)"
    using writeInterfaceImpls_returns_check by blast
next
  assume "Promise_all (resolverTasks E s dirR) wR = (Inr fsR, vR) \<and>
          checkOutputDir E dirR resolverPattern fsR vR = (Inr bR, uR)"
  then show "writeResolverImpls E s dirR wR = (Inr bR, uR)"
    using writeResolverImpls_returns_check by blast
qed

text \<open>
  The example project \<open>orphanProject\<close>: the file \<open>Old.js\<close> in the directory of the
  scalars matches the pattern and belongs to no scalar of the schema. The check of that
  directory returns \<open>false\<close> and the scalar category returns \<open>undefined\<close>; the other
  two categories return \<open>true\<close>. The run prints the warning that names the file, and
  ends with exit code 0.
\<close>

theorem orphan_scalar_file_exit_code_zero:
  "exitCode (exampleEnv dateSchema) ''/p/schema.graphql'' orphanProject = 0 \<and>
   map_of (files orphanProject) ''/p/scalars/Old.js'' = Some ''Old serialize decoder'' \<and>
   jsPattern ''/p/scalars/Old.js'' \<and>
   ''Old'' \<notin> set (scalarNames dateSchema) \<and>
   stderr (snd (runWithOptions (exampleEnv dateSchema) ''/p/schema.graphql'' orphanProject)) =
     [[], ''Warning: Unexpected files found in output directory.'',
      ''Please rename or delete the following files:'', ''- /p/scalars/Old.js'', []] \<and>
   fst (checkOutputDir (exampleEnv dateSchema) ''/p/scalars'' jsPattern
          [''/p/scalars/index.js'', ''/p/scalars/Date.js'']
          (snd (Promise_all (scalarTasks (exampleEnv dateSchema) dateSchema ''/p/scalars'')
                  orphanProject))) = Inr False \<and>
   fst (writeScalarImpls (exampleEnv dateSchema) dateSchema ''/p/scalars'' orphanProject) =
     Inr () \<and>
   fst (writeInterfaceImpls (exampleEnv dateSchema) dateSchema ''/p/interfaces''
          orphanProject) = Inr True \<and>
   fst (writeResolverImpls (exampleEnv dateSchema) dateSchema ''/p/resolvers''
          orphanProject) = Inr True"
proof -
  let ?E = "exampleEnv dateSchema"
  let ?S = "Promise_all (scalarTasks ?E dateSchema ''/p/scalars'') orphanProject"
  let ?fsS = "[''/p/scalars/index.js'', ''/p/scalars/Date.js'']"
  let ?CS = "checkOutputDir ?E ''/p/scalars'' jsPattern ?fsS (snd ?S)"
  let ?I = "Promise_all (interfaceTasks ?E dateSchema ''/p/interfaces'') orphanProject"
  let ?CI = "checkOutputDir ?E ''/p/interfaces'' jsPattern [] (snd ?I)"
  let ?R = "Promise_all (resolverTasks ?E dateSchema ''/p/resolvers'') orphanProject"
  let ?fsR = "[''/p/resolvers/index.js'', ''QueryResolver.js'']"
  let ?CR = "checkOutputDir ?E ''/p/resolvers'' resolverPattern ?fsR (snd ?R)"
  have f: "map_of (files orphanProject) ''/p/schema.graphql'' =
      Some ''scalar Date type Query { now: Date }''"
    by (simp add: orphanProject_def)
  have e: "buildSchema ?E ''scalar Date type Query { now: Date }'' = Inr dateSchema"
    by (simp add: exampleEnv_def)
  note t = exit_code_by_category
    [OF f e, where dirS = "''/p/scalars''" and wS = orphanProject and fsS = ?fsS and
       vS = "snd ?S" and bS = False and uS = "snd ?CS" and
       dirI = "''/p/interfaces''" and wI = orphanProject and fsI = "[]" and
       vI = "snd ?I" and bI = True and uI = "snd ?CI" and
       dirR = "''/p/resolvers''" and wR = orphanProject and fsR = ?fsR and
       vR = "snd ?R" and bR = True and uR = "snd ?CR"]
  have g: "fst (Promise_all (generators ?E dateSchema (path_dirname ''/p/schema.graphql''))
      orphanProject) =
      Inr [Undefined, Undefined, Undefined, Undefined, Boolean True, Boolean True]"
    by code_simp
  have x: "exitCode ?E ''/p/schema.graphql'' orphanProject = 0"
    using t by (auto simp: g)
  have o: "map_of (files orphanProject) ''/p/scalars/Old.js'' = Some ''Old serialize decoder''"
    by (simp add: orphanProject_def)
  have p: "jsPattern ''/p/scalars/Old.js''"
    by (simp add: jsPattern_def endsWith_def)
  have n: "''Old'' \<notin> set (scalarNames dateSchema)"
    by code_simp
  have l: "stderr (snd (runWithOptions ?E ''/p/schema.graphql'' orphanProject)) =
     [[], ''Warning: Unexpected files found in output directory.'',
      ''Please rename or delete the following files:'', ''- /p/scalars/Old.js'', []]"
    by code_simp
  have s1: "fst ?S = Inr ?fsS" by code_simp
  have s2: "fst ?CS = Inr False" by code_simp
  have i1: "fst ?I = Inr []" by code_simp
  have i2: "fst ?CI = Inr True" by code_simp
  have r1: "fst ?R = Inr ?fsR" by code_simp
  have r2: "fst ?CR = Inr True" by code_simp
  have hS: "?S = (Inr ?fsS, snd ?S) \<and> ?CS = (Inr False, snd ?CS)"
    using s1 s2 by (metis prod.collapse)
  have hI: "?I = (Inr [], snd ?I) \<and> ?CI = (Inr True, snd ?CI)"
    using i1 i2 by (metis prod.collapse)
  have hR: "?R = (Inr ?fsR, snd ?R) \<and> ?CR = (Inr True, snd ?CR)"
    using r1 r2 by (metis prod.collapse)
  have "writeScalarImpls ?E dateSchema ''/p/scalars'' orphanProject = (Inr (), snd ?CS)"
    using t hS by blast
  then have ws: "fst (writeScalarImpls ?E dateSchema ''/p/scalars'' orphanProject) = Inr ()"
    by simp
  have "writeInterfaceImpls ?E dateSchema ''/p/interfaces'' orphanProject = (Inr True, snd ?CI)"
    using t hI by blast
  then have wi: "fst (writeInterfaceImpls ?E dateSchema ''/p/interfaces'' orphanProject) =
      Inr True"
    by simp
  have "writeResolverImpls ?E dateSchema ''/p/resolvers'' orphanProject = (Inr True, snd ?CR)"
    using t hR by blast
  then have wr: "fst (writeResolverImpls ?E dateSchema ''/p/resolvers'' orphanProject) =
      Inr True"
    by simp
  show ?thesis using x o p n l s2 ws wi wr by (intro conjI)
qed

subsection \<open>The names that receive definitions, files and entries\<close>











lemma writesOnly_mono: "writesOnly P t \<Longrightarrow> P \<subseteq> Q \<Longrightarrow> writesOnly Q t"
  unfolding writesOnly_def by blast

lemma writesOnly_returnIO: "writesOnly P (returnIO x)"
  by (simp add: writesOnly_def returnIO_def)

lemma writesOnly_throwIO: "writesOnly P (throwIO e)"
  by (simp add: writesOnly_def throwIO_def)

lemma writesOnly_liftE: "writesOnly P (liftE r)"
  by (simp add: writesOnly_def liftE_def)

lemma writesOnly_readFile: "writesOnly P (readFile p)"
  by (simp add: writesOnly_def readFile_def)

lemma writesOnly_readdir: "writesOnly P (readdir p)"
  by (simp add: writesOnly_def readdir_def)

lemma writesOnly_console_error: "writesOnly P (console_error ls)"
  by (simp add: writesOnly_def console_error_def)

lemma writesOnly_invariant: "writesOnly P (invariant c m)"
  by (simp add: invariant_def writesOnly_returnIO writesOnly_throwIO)

lemma writesOnly_bindIO:
  assumes "writesOnly P m" "\<And>x. writesOnly P (f x)"
  shows "writesOnly P (bindIO m f)"
  unfolding writesOnly_def
proof
  fix w
  obtain r w1 where m: "m w = (r, w1)" by (cases "m w")
  have k1: "set (Object_keys (files w1)) \<subseteq> set (Object_keys (files w)) \<union> P"
    using assms(1) m unfolding writesOnly_def by (metis snd_conv)
  show "set (Object_keys (files (snd (bindIO m f w)))) \<subseteq> set (Object_keys (files w)) \<union> P"
  proof (cases r)
    case (Inl e)
    then show ?thesis using m k1 by (simp add: bindIO_def)
  next
    case (Inr x)
    have "set (Object_keys (files (snd (f x w1)))) \<subseteq> set (Object_keys (files w1)) \<union> P"
      using assms(2) unfolding writesOnly_def by blast
    then show ?thesis using m k1 Inr by (auto simp: bindIO_def)
  qed
qed

lemma writesOnly_if_world:
  assumes "writesOnly P t" "writesOnly P u"
  shows "writesOnly P (\<lambda>w. if c w then t w else u w)"
  using assms unfolding writesOnly_def by simp

lemma Map_set_key_set: "fst ` set (Map_set k v m) = insert k (fst ` set m)"
  using Map_set_keys [of k v m] by (metis (full_types) image_set insert_absorb list.set(1) list.set(2) set_append Un_insert_right sup_bot.right_neutral)

lemma writesOnly_write_file: "p \<in> P \<Longrightarrow> writesOnly P (write_file p c)"
  unfolding writesOnly_def write_file_def Object_keys_def
  by (auto simp: Map_set_key_set)

lemma writesOnly_writeCode: "p \<in> P \<Longrightarrow> writesOnly P (writeCode E code p)"
  unfolding writeCode_def
  by (intro writesOnly_bindIO writesOnly_liftE writesOnly_write_file)

lemma writesOnly_getExports: "writesOnly P (getExportsFromPath E p)"
  unfolding getExportsFromPath_def
  by (intro writesOnly_bindIO writesOnly_liftE writesOnly_readFile)

lemma writesOnly_Promise_all:
  "(\<And>t. t \<in> set ts \<Longrightarrow> writesOnly P t) \<Longrightarrow> writesOnly P (Promise_all ts)"
proof (induction ts)
  case Nil
  then show ?case by (simp add: writesOnly_returnIO)
next
  case (Cons a ts)
  show ?case
    unfolding Promise_all.simps
    by (intro writesOnly_bindIO writesOnly_returnIO Cons.IH Cons.prems) simp_all
qed

lemma writesOnly_checkOutputDir: "writesOnly P (checkOutputDir E dir pat fs)"
  unfolding checkOutputDir_def Let_def
  by (intro writesOnly_bindIO writesOnly_readdir)
     (simp add: writesOnly_bindIO writesOnly_console_error writesOnly_returnIO)

lemma writesOnly_writeScalarImpl: "p \<in> P \<Longrightarrow> writesOnly P (writeScalarImpl E s name p)"
  unfolding writeScalarImpl_def
  by (intro writesOnly_if_world writesOnly_bindIO writesOnly_getExports writesOnly_liftE
      writesOnly_writeCode)
     (simp_all add: writesOnly_throwIO writesOnly_returnIO)

lemma writesOnly_writeInterfaceImpl: "p \<in> P \<Longrightarrow> writesOnly P (writeInterfaceImpl E s name p)"
  unfolding writeInterfaceImpl_def
  by (intro writesOnly_if_world writesOnly_bindIO writesOnly_getExports writesOnly_liftE
      writesOnly_writeCode)
     (simp_all add: writesOnly_throwIO writesOnly_returnIO)

lemma writesOnly_writeResolverImpl: "p \<in> P \<Longrightarrow> writesOnly P (writeResolverImpl E s name p)"
  unfolding writeResolverImpl_def
  by (intro writesOnly_if_world writesOnly_bindIO writesOnly_invariant writesOnly_liftE
      writesOnly_writeCode writesOnly_returnIO)

lemma writesOnly_writeScalarsIndex: "p \<in> P \<Longrightarrow> writesOnly P (writeScalarsIndex E s p)"
  unfolding writeScalarsIndex_def Let_def
  by (intro writesOnly_bindIO writesOnly_returnIO)
     (simp add: writesOnly_bindIO writesOnly_liftE writesOnly_writeCode writesOnly_returnIO)

lemma writesOnly_writeRootResolverImpl: "p \<in> P \<Longrightarrow> writesOnly P (writeRootResolverImpl E s p)"
  unfolding writeRootResolverImpl_def
  by (intro writesOnly_bindIO writesOnly_liftE writesOnly_writeCode writesOnly_returnIO)

lemma writesOnly_writeResolverTypes: "p \<in> P \<Longrightarrow> writesOnly P (writeResolverTypes E s p)"
  unfolding writeResolverTypes_def
  by (intro writesOnly_bindIO writesOnly_liftE writesOnly_writeCode)

lemma writesOnly_scaffoldState: "writesOnly P (scaffoldState E p)"
  unfolding scaffoldState_def
  by (intro writesOnly_if_world writesOnly_bindIO writesOnly_readFile writesOnly_getExports
      writesOnly_returnIO)

lemma writesOnly_writeContextScaffold: "p \<in> P \<Longrightarrow> writesOnly P (writeContextScaffold E s p)"
  unfolding writeContextScaffold_def Let_def
  by (intro writesOnly_bindIO writesOnly_scaffoldState)
     (simp add: writesOnly_writeCode writesOnly_returnIO split: prod.splits)

lemma writesOnly_writeModelsScaffold: "p \<in> P \<Longrightarrow> writesOnly P (writeModelsScaffold E s p)"
  unfolding writeModelsScaffold_def Let_def
  by (intro writesOnly_bindIO writesOnly_scaffoldState)
     (simp add: writesOnly_writeCode writesOnly_returnIO split: prod.splits)

lemma writesOnly_writeScalarImpls:
  "scalarPaths s dir \<subseteq> P \<Longrightarrow> writesOnly P (writeScalarImpls E s dir)"
  unfolding writeScalarImpls_def
  by (intro writesOnly_bindIO writesOnly_Promise_all writesOnly_checkOutputDir
      writesOnly_returnIO)
     (auto simp: scalarTasks_def scalarPaths_def Let_def
       intro!: writesOnly_bindIO writesOnly_writeScalarsIndex writesOnly_writeScalarImpl
         writesOnly_returnIO)

lemma writesOnly_writeInterfaceImpls:
  "interfacePaths s dir \<subseteq> P \<Longrightarrow> writesOnly P (writeInterfaceImpls E s dir)"
  unfolding writeInterfaceImpls_def
  by (intro writesOnly_bindIO writesOnly_Promise_all writesOnly_checkOutputDir)
     (auto simp: interfaceTasks_def interfacePaths_def Let_def
       intro!: writesOnly_bindIO writesOnly_writeInterfaceImpl writesOnly_returnIO)

lemma writesOnly_writeResolverImpls:
  "resolverPaths s dir \<subseteq> P \<Longrightarrow> writesOnly P (writeResolverImpls E s dir)"
  unfolding writeResolverImpls_def
  by (intro writesOnly_bindIO writesOnly_Promise_all writesOnly_checkOutputDir)
     (auto simp: resolverTasks_def resolverPaths_def Let_def
       intro!: writesOnly_bindIO writesOnly_writeRootResolverImpl writesOnly_writeResolverImpl
         writesOnly_returnIO)

lemma writesOnly_voidTask: "writesOnly P t \<Longrightarrow> writesOnly P (voidTask t)"
  unfolding voidTask_def by (intro writesOnly_bindIO writesOnly_returnIO)

lemma writesOnly_boolTask: "writesOnly P t \<Longrightarrow> writesOnly P (boolTask t)"
  unfolding boolTask_def by (intro writesOnly_bindIO writesOnly_returnIO)

lemma writesOnly_generators:
  "writesOnly (outputPaths s schemaDir) (Promise_all (generators E s schemaDir))"
proof (rule writesOnly_Promise_all)
  fix t assume "t \<in> set (generators E s schemaDir)"
  then consider
      "t = voidTask (writeResolverTypes E s (path_resolve schemaDir ''types/index.js''))"
    | "t = voidTask (writeContextScaffold E s (path_resolve schemaDir ''context/index.js''))"
    | "t = voidTask (writeModelsScaffold E s (path_resolve schemaDir ''models/index.js''))"
    | "t = voidTask (writeScalarImpls E s (path_resolve schemaDir ''scalars/''))"
    | "t = boolTask (writeInterfaceImpls E s (path_resolve schemaDir ''interfaces/''))"
    | "t = boolTask (writeResolverImpls E s (path_resolve schemaDir ''resolvers/''))"
    by (auto simp: generators_def)
  then show "writesOnly (outputPaths s schemaDir) t"
  proof cases
    case 1
    then show ?thesis
      by (simp add: writesOnly_voidTask writesOnly_writeResolverTypes outputPaths_def)
  next
    case 2
    then show ?thesis
      by (simp add: writesOnly_voidTask writesOnly_writeContextScaffold outputPaths_def)
  next
    case 3
    then show ?thesis
      by (simp add: writesOnly_voidTask writesOnly_writeModelsScaffold outputPaths_def)
  next
    case 4
    then show ?thesis
      by (auto simp: outputPaths_def intro!: writesOnly_voidTask writesOnly_writeScalarImpls)
  next
    case 5
    then show ?thesis
      by (auto simp: outputPaths_def intro!: writesOnly_boolTask writesOnly_writeInterfaceImpls)
  next
    case 6
    then show ?thesis
      by (auto simp: outputPaths_def intro!: writesOnly_boolTask writesOnly_writeResolverImpls)
  qed
qed

lemma writesOnly_runWithOptions:
  assumes "\<And>text s. buildSchema E text = Inr s \<Longrightarrow> outputPaths s (path_dirname schemaFile) \<subseteq> P"
  shows "writesOnly P (runWithOptions E schemaFile)"
  unfolding runWithOptions_def Let_def
proof (rule writesOnly_bindIO)
  show "writesOnly P (readFile schemaFile)" by (rule writesOnly_readFile)
next
  fix src
  show "writesOnly P (bindIO (liftE (buildSchema E src))
          (\<lambda>s. bindIO (Promise_all (generators E s (path_dirname schemaFile)))
                 (\<lambda>results. if \<not> list_all (\<lambda>rv. rv = Undefined \<or> rv = Boolean True) results
                            then returnIO (Exited 1) else returnIO Returned)))"
  proof (cases "buildSchema E src")
    case (Inl e)
    then show ?thesis by (simp add: writesOnly_def bindIO_def liftE_def)
  next
    case (Inr s)
    have "writesOnly P (Promise_all (generators E s (path_dirname schemaFile)))"
      using writesOnly_generators assms[OF Inr] by (rule writesOnly_mono)
    then have "writesOnly P (bindIO (Promise_all (generators E s (path_dirname schemaFile)))
                 (\<lambda>results. if \<not> list_all (\<lambda>rv. rv = Undefined \<or> rv = Boolean True) results
                            then returnIO (Exited 1) else returnIO Returned))"
      by (intro writesOnly_bindIO) (simp_all add: writesOnly_returnIO)
    then show ?thesis using Inr by (simp add: writesOnly_def bindIO_def liftE_def)
  qed
qed



end
